theory Spec2Isabelle
  imports Complex_Main "HOL-Library.Sublist"
begin

section \<open>Python values\<close>

text \<open>
  The program is \<^verbatim>\<open>trading_bot.py\<close>: a wrapper class \<^verbatim>\<open>BinanceFuturesBot\<close> around the
  exchange client library, and a text menu driving it. The values that flow through it
  are JSON-like: the library hands back dictionaries, lists, strings and numbers.

  A Python float is \<open>Fin r\<close>, an infinity or NaN. \<open>Fin r\<close> stands for the double nearest
  to the rational \<open>r\<close>: the conversions below map what underflows to \<open>Fin 0\<close> and what
  overflows to an infinity, and keep the exact \<open>r\<close> in between. The program only ever
  compares a float with zero, and rounding to the nearest double changes neither the sign
  of such an \<open>r\<close> nor whether it is zero.
\<close>

datatype pyfloat = Fin rat | PInf | NInf | NaN

datatype pyval =
    PNone
  | PBool bool
  | PInt int
  | PFloat pyfloat
  | PStr string
  | PList "pyval list"
  | PDict "(string \<times> pyval) list"

text \<open>
  The exceptions that can arise, all of them subclasses of Python's \<^verbatim>\<open>Exception\<close>. The two
  \<^verbatim>\<open>Binance...\<close> classes are the library's; \<open>OtherException\<close> (class name, message) is
  any other one the library lets through, a transport failure for instance.
  \<^verbatim>\<open>KeyboardInterrupt\<close> is not among them: it is not an \<^verbatim>\<open>Exception\<close>, and it is modelled
  where the user can cause it, at a prompt (\<open>Interrupt\<close> below).
\<close>

datatype exn =
    ValueError string
  | TypeError string
  | KeyError string
  | AttributeError string
  | OverflowError string
  | EOFError
  | BinanceAPIException string
  | BinanceOrderException string
  | OtherException string string

subsection \<open>Strings\<close>

text \<open>
  Symbols, sides and keyboard input are ASCII text. \<^verbatim>\<open>str.upper()\<close> maps \<open>a\<close>..\<open>z\<close> to
  \<open>A\<close>..\<open>Z\<close> and leaves every other ASCII character alone; \<^verbatim>\<open>str.strip()\<close> removes
  leading and trailing whitespace (tab, line feed, vertical tab, form feed, carriage
  return, the four separators 28..31 and the space).
\<close>

definition upper_char :: "char \<Rightarrow> char" where
  "upper_char c =
     (let n = (of_char c :: nat) in if 97 \<le> n \<and> n \<le> 122 then char_of (n - 32) else c)"

definition py_upper :: "string \<Rightarrow> string" where
  "py_upper s = map upper_char s"

definition lower_char :: "char \<Rightarrow> char" where
  "lower_char c =
     (let n = (of_char c :: nat) in if 65 \<le> n \<and> n \<le> 90 then char_of (n + 32) else c)"

definition is_space :: "char \<Rightarrow> bool" where
  "is_space c = (let n = (of_char c :: nat) in (9 \<le> n \<and> n \<le> 13) \<or> (28 \<le> n \<and> n \<le> 32))"

definition py_strip :: "string \<Rightarrow> string" where
  "py_strip s = rev (dropWhile is_space (rev (dropWhile is_space s)))"

definition is_digit :: "char \<Rightarrow> bool" where
  "is_digit c = (let n = (of_char c :: nat) in 48 \<le> n \<and> n \<le> 57)"

definition digit_val :: "char \<Rightarrow> nat" where
  "digit_val c = of_char c - 48"

definition digits_val :: "string \<Rightarrow> nat" where
  "digits_val ds = foldl (\<lambda>acc c. 10 * acc + digit_val c) 0 ds"

text \<open>
  In a numeric literal an underscore may stand only between two digits. \<open>underscores_ok\<close>
  is that check, with the previous character as its first argument (\<open>None\<close> at the start).
\<close>

fun underscores_ok :: "char option \<Rightarrow> string \<Rightarrow> bool" where
  "underscores_ok prev [] = (prev \<noteq> Some CHR ''_'')"
| "underscores_ok prev (c # cs) =
     (if c = CHR ''_'' then
        (case prev of None \<Rightarrow> False | Some p \<Rightarrow> is_digit p \<and> underscores_ok (Some c) cs)
      else if prev = Some CHR ''_'' \<and> \<not> is_digit c then False
      else underscores_ok (Some c) cs)"

definition split_sign :: "string \<Rightarrow> bool \<times> string" where
  \<comment> \<open>an optional sign: (is it negative, the rest)\<close>
  "split_sign s =
     (case s of
        c # cs \<Rightarrow> if c = CHR ''-'' then (True, cs) else if c = CHR ''+'' then (False, cs) else (False, s)
      | [] \<Rightarrow> (False, s))"

subsection \<open>\<^verbatim>\<open>int(text)\<close>\<close>

definition int_of_str :: "string \<Rightarrow> exn + int" where
  "int_of_str s =
     (let t = py_strip s; (neg, body) = split_sign t; ds = filter (\<lambda>c. c \<noteq> CHR ''_'') body
      in if ds \<noteq> [] \<and> list_all is_digit ds \<and> underscores_ok None body
         then Inr (if neg then - int (digits_val ds) else int (digits_val ds))
         else Inl (ValueError (''invalid literal for int() with base 10: '' @ s)))"

subsection \<open>\<^verbatim>\<open>float(x)\<close>\<close>

text \<open>
  \<open>round_double\<close> is the range of a double: a magnitude of at most \<open>2^-1075\<close> (half the
  smallest subnormal) rounds to zero, one of at least \<open>2^1024 - 2^970\<close> (half a step beyond
  the largest double) to an infinity.
\<close>

definition round_double :: "rat \<Rightarrow> pyfloat" where
  "round_double r =
     (if \<bar>r\<bar> \<le> 1 / 2 ^ 1075 then Fin 0
      else if \<bar>r\<bar> \<ge> 2 ^ 1024 - 2 ^ 970 then (if r < 0 then NInf else PInf)
      else Fin r)"

definition decimal_of_str :: "string \<Rightarrow> rat option" where
  \<comment> \<open>digits, an optional point and fraction, an optional exponent; nothing may follow\<close>
  "decimal_of_str s =
     (let ip = takeWhile is_digit s; r1 = dropWhile is_digit s;
          has_point = (r1 \<noteq> [] \<and> hd r1 = CHR ''.'');
          fp = (if has_point then takeWhile is_digit (tl r1) else []);
          r2 = (if has_point then dropWhile is_digit (tl r1) else r1);
          mant = of_nat (digits_val (ip @ fp)) / 10 ^ length fp
      in if ip = [] \<and> fp = [] then None
         else if r2 = [] then Some mant
         else if hd r2 = CHR ''e'' \<or> hd r2 = CHR ''E'' then
           (let (eneg, eds) = split_sign (tl r2)
            in if eds \<noteq> [] \<and> list_all is_digit eds
               then Some (if eneg then mant / 10 ^ digits_val eds else mant * 10 ^ digits_val eds)
               else None)
         else None)"

definition float_of_str :: "string \<Rightarrow> exn + pyfloat" where
  "float_of_str s =
     (let t = py_strip s; (neg, body0) = split_sign t;
          body = filter (\<lambda>c. c \<noteq> CHR ''_'') body0; low = map lower_char body
      in if \<not> underscores_ok None t then Inl (ValueError (''could not convert string to float: '' @ s))
         else if low = ''inf'' \<or> low = ''infinity'' then Inr (if neg then NInf else PInf)
         else if low = ''nan'' then Inr NaN
         else (case decimal_of_str body of
                 None \<Rightarrow> Inl (ValueError (''could not convert string to float: '' @ s))
               | Some r \<Rightarrow> Inr (round_double (if neg then - r else r))))"

fun py_float :: "pyval \<Rightarrow> exn + pyfloat" where
  "py_float (PFloat f) = Inr f"
| "py_float (PInt i) =
     (if \<bar>i\<bar> \<ge> 2 ^ 1024 - 2 ^ 970 then Inl (OverflowError ''int too large to convert to float'')
      else Inr (Fin (of_int i)))"
| "py_float (PBool b) = Inr (Fin (if b then 1 else 0))"
| "py_float (PStr s) = float_of_str s"
| "py_float _ = Inl (TypeError ''float() argument must be a string or a real number'')"

subsection \<open>Comparisons with zero, truth values, containers\<close>

definition le_zero :: "pyfloat \<Rightarrow> bool" where
  \<comment> \<open>\<^verbatim>\<open>x <= 0\<close>: false for NaN\<close>
  "le_zero x = (case x of Fin r \<Rightarrow> r \<le> 0 | NInf \<Rightarrow> True | PInf \<Rightarrow> False | NaN \<Rightarrow> False)"

definition gt_zero :: "pyfloat \<Rightarrow> bool" where
  \<comment> \<open>\<^verbatim>\<open>x > 0\<close>: false for NaN\<close>
  "gt_zero x = (case x of Fin r \<Rightarrow> 0 < r | PInf \<Rightarrow> True | NInf \<Rightarrow> False | NaN \<Rightarrow> False)"

definition ne_zero :: "pyfloat \<Rightarrow> bool" where
  \<comment> \<open>\<^verbatim>\<open>x != 0\<close>: true for NaN and the infinities\<close>
  "ne_zero x = (x \<noteq> Fin 0)"

fun truthy :: "pyval \<Rightarrow> bool" where
  "truthy PNone = False"
| "truthy (PBool b) = b"
| "truthy (PInt i) = (i \<noteq> 0)"
| "truthy (PFloat f) = ne_zero f"
| "truthy (PStr s) = (s \<noteq> [])"
| "truthy (PList xs) = (xs \<noteq> [])"
| "truthy (PDict kvs) = (kvs \<noteq> [])"

definition dict_get :: "pyval \<Rightarrow> string \<Rightarrow> pyval \<Rightarrow> exn + pyval" where
  \<comment> \<open>\<^verbatim>\<open>x.get(k, d)\<close>; only a dictionary has the method\<close>
  "dict_get x k d =
     (case x of
        PDict kvs \<Rightarrow> Inr (case map_of kvs k of Some v \<Rightarrow> v | None \<Rightarrow> d)
      | _ \<Rightarrow> Inl (AttributeError ''get''))"

definition subscript :: "pyval \<Rightarrow> string \<Rightarrow> exn + pyval" where
  \<comment> \<open>\<^verbatim>\<open>x[k]\<close> for a string key \<open>k\<close>\<close>
  "subscript x k =
     (case x of
        PDict kvs \<Rightarrow> (case map_of kvs k of Some v \<Rightarrow> Inr v | None \<Rightarrow> Inl (KeyError k))
      | PList _ \<Rightarrow> Inl (TypeError ''list indices must be integers or slices, not str'')
      | PStr _ \<Rightarrow> Inl (TypeError ''string indices must be integers, not str'')
      | _ \<Rightarrow> Inl (TypeError ''object is not subscriptable''))"

definition py_iter :: "pyval \<Rightarrow> exn + pyval list" where
  \<comment> \<open>the items a \<^verbatim>\<open>for\<close> loop visits\<close>
  "py_iter x =
     (case x of
        PList xs \<Rightarrow> Inr xs
      | PDict kvs \<Rightarrow> Inr (map (\<lambda>kv. PStr (fst kv)) kvs)
      | PStr s \<Rightarrow> Inr (map (\<lambda>c. PStr [c]) s)
      | _ \<Rightarrow> Inl (TypeError ''object is not iterable''))"

definition py_len :: "pyval \<Rightarrow> exn + nat" where
  "py_len x =
     (case x of
        PList xs \<Rightarrow> Inr (length xs)
      | PDict kvs \<Rightarrow> Inr (length kvs)
      | PStr s \<Rightarrow> Inr (length s)
      | _ \<Rightarrow> Inl (TypeError ''object has no len()''))"

section \<open>The exchange client wrapper\<close>

text \<open>
  Every operation of \<^verbatim>\<open>BinanceFuturesBot\<close> is one call of a method of the library's client
  object. \<open>request\<close> names the method and its arguments; for \<^verbatim>\<open>futures_create_order\<close> the
  keyword arguments are kept as written, in order.
\<close>

datatype request =
    FuturesAccount
  | FuturesSymbolTicker string
  | FuturesCreateOrder "(string \<times> pyval) list"
  | FuturesGetOrder string int
  | FuturesCancelOrder string int
  | FuturesGetOpenOrders "string option"

text \<open>
  A line of the log: \<^verbatim>\<open>logger.info\<close> with its text and the values interpolated into it,
  \<^verbatim>\<open>logger.error\<close> with its text and the exception.
\<close>

datatype log_line = LogInfo string "pyval list" | LogError string exn

text \<open>
  The object's fields, with the calls made through \<^verbatim>\<open>self.client\<close> so far (oldest first)
  and the lines logged so far.
\<close>

record bot =
  api_key :: string
  api_secret :: string
  testnet :: bool
  issued :: "request list"
  logged :: "log_line list"

text \<open>
  The exchange and the library are not part of the program. They are a parameter: what a
  call returns or raises, given the calls made before it. \<open>format_time\<close> stands for
  \<^verbatim>\<open>datetime.fromtimestamp(t / 1000).strftime('%Y-%m-%d %H:%M:%S')\<close>, which depends on the
  local time zone; \<open>connect\<close> for the construction of the library's client.
\<close>

record runtime =
  exchange :: "request list \<Rightarrow> request \<Rightarrow> exn + pyval"
  format_time :: "pyval \<Rightarrow> exn + string"
  connect :: "string \<Rightarrow> string \<Rightarrow> bool \<Rightarrow> exn option"

definition call :: "runtime \<Rightarrow> request \<Rightarrow> bot \<Rightarrow> (exn + pyval) \<times> bot" where
  "call rt r b = (exchange rt (issued b) r, b\<lparr>issued := issued b @ [r]\<rparr>)"

definition info :: "string \<Rightarrow> pyval list \<Rightarrow> bot \<Rightarrow> bot" where
  "info text args b = b\<lparr>logged := logged b @ [LogInfo text args]\<rparr>"

definition error :: "string \<Rightarrow> exn \<Rightarrow> bot \<Rightarrow> bot" where
  "error text e b = b\<lparr>logged := logged b @ [LogError text e]\<rparr>"

definition init :: "runtime \<Rightarrow> string \<Rightarrow> string \<Rightarrow> bool \<Rightarrow> log_line list \<Rightarrow> (exn + unit) \<times> bot" where
  \<comment> \<open>\<^verbatim>\<open>__init__\<close>: the fields are set, then the library's client is made; the last argument is
     the log so far\<close>
  "init rt key secret tn lg =
     (let b = \<lparr>api_key = key, api_secret = secret, testnet = tn, issued = [], logged = lg\<rparr>
      in case connect rt key secret tn of
           Some e \<Rightarrow> (Inl e, error ''Failed to initialize Binance client'' e b)
         | None \<Rightarrow>
             (Inr (), info (if tn then ''Connected to Binance Futures Testnet''
                           else ''Connected to Binance Futures Live'') [] b))"

text \<open>
  The handlers of the operations: \<^verbatim>\<open>except BinanceAPIException\<close>, then (in the three
  placement operations) \<^verbatim>\<open>except ValueError\<close>, then \<^verbatim>\<open>except Exception\<close>; each logs and
  raises the exception again.
\<close>

definition reraise :: "string \<Rightarrow> string \<Rightarrow> exn \<Rightarrow> bot \<Rightarrow> (exn + pyval) \<times> bot" where
  "reraise api_text other_text e b =
     (case e of
        BinanceAPIException _ \<Rightarrow> (Inl e, error api_text e b)
      | _ \<Rightarrow> (Inl e, error other_text e b))"

definition reraise_order :: "string \<Rightarrow> string \<Rightarrow> string \<Rightarrow> exn \<Rightarrow> bot \<Rightarrow> (exn + pyval) \<times> bot" where
  "reraise_order api_text invalid_text other_text e b =
     (case e of
        BinanceAPIException _ \<Rightarrow> (Inl e, error api_text e b)
      | ValueError _ \<Rightarrow> (Inl e, error invalid_text e b)
      | _ \<Rightarrow> (Inl e, error other_text e b))"

subsection \<open>\<^verbatim>\<open>get_account_info\<close>\<close>

definition position_entry :: "(string \<times> pyval) list \<Rightarrow> pyval" where
  \<comment> \<open>the dictionary appended for a position; \<^verbatim>\<open>position.get(k)\<close> is \<^verbatim>\<open>None\<close> for a missing key\<close>
  "position_entry p =
     (let get = (\<lambda>k. case map_of p k of Some v \<Rightarrow> v | None \<Rightarrow> PNone)
      in PDict [(''symbol'', get ''symbol''),
                (''size'', get ''positionAmt''),
                (''entry_price'', get ''entryPrice''),
                (''unrealized_pnl'', get ''unrealizedPnL''),
                (''percentage'', get ''percentage'')])"

fun collect_positions :: "pyval list \<Rightarrow> pyval list \<Rightarrow> exn + pyval list" where
  \<comment> \<open>the loop over the positions; the second argument is \<^verbatim>\<open>account_data['positions']\<close> so far\<close>
  "collect_positions [] acc = Inr acc"
| "collect_positions (position # rest) acc =
     (case dict_get position ''positionAmt'' (PInt 0) of
        Inl e \<Rightarrow> Inl e
      | Inr amt \<Rightarrow>
          (case py_float amt of
             Inl e \<Rightarrow> Inl e
           | Inr f \<Rightarrow>
               if ne_zero f then
                 (case position of
                    PDict p \<Rightarrow> collect_positions rest (acc @ [position_entry p])
                  | _ \<Rightarrow> Inl (AttributeError ''get''))
               else collect_positions rest acc))"

definition account_data :: "pyval \<Rightarrow> exn + pyval" where
  \<comment> \<open>the body of the \<^verbatim>\<open>try\<close> after the call, up to the \<^verbatim>\<open>return\<close>\<close>
  "account_data account_info =
     (case account_info of
        PDict kvs \<Rightarrow>
          (let get = (\<lambda>k d. case map_of kvs k of Some v \<Rightarrow> v | None \<Rightarrow> d)
           in case py_iter (get ''positions'' (PList [])) of
                Inl e \<Rightarrow> Inl e
              | Inr ps \<Rightarrow>
                  (case collect_positions ps [] of
                     Inl e \<Rightarrow> Inl e
                   | Inr kept \<Rightarrow>
                       Inr (PDict [(''total_wallet_balance'', get ''totalWalletBalance'' (PStr ''0'')),
                                   (''total_unrealized_pnl'', get ''totalUnrealizedPnL'' (PStr ''0'')),
                                   (''total_margin_balance'', get ''totalMarginBalance'' (PStr ''0'')),
                                   (''available_balance'', get ''availableBalance'' (PStr ''0'')),
                                   (''max_withdraw_amount'', get ''maxWithdrawAmount'' (PStr ''0'')),
                                   (''positions'', PList kept)])))
      | _ \<Rightarrow> Inl (AttributeError ''get''))"

definition get_account_info :: "runtime \<Rightarrow> bot \<Rightarrow> (exn + pyval) \<times> bot" where
  "get_account_info rt b =
     (let (r, b1) = call rt FuturesAccount b
      in case (case r of Inl e \<Rightarrow> Inl e | Inr account_info \<Rightarrow> account_data account_info) of
           Inr data \<Rightarrow> (Inr data, info ''Account information retrieved successfully'' [] b1)
         | Inl e \<Rightarrow> reraise ''API error getting account info''
                      ''Unexpected error getting account info'' e b1)"

subsection \<open>\<^verbatim>\<open>get_current_price\<close>\<close>

definition get_current_price :: "runtime \<Rightarrow> string \<Rightarrow> bot \<Rightarrow> (exn + pyval) \<times> bot" where
  "get_current_price rt symbol b =
     (let (r, b1) = call rt (FuturesSymbolTicker (py_upper symbol)) b;
          fail = reraise (''API error getting price for '' @ symbol)
                   (''Unexpected error getting price for '' @ symbol)
      in case r of
           Inl e \<Rightarrow> fail e b1
         | Inr ticker \<Rightarrow>
             (case subscript ticker ''price'' of
                Inl e \<Rightarrow> fail e b1
              | Inr p \<Rightarrow>
                  (case py_float p of
                     Inl e \<Rightarrow> fail e b1
                   | Inr price \<Rightarrow>
                       (Inr (PFloat price),
                        info ''Current price for'' [PStr symbol, PFloat price] b1))))"

subsection \<open>The three placement operations\<close>

definition side_message :: string where
  \<comment> \<open>the text \<^verbatim>\<open>Side must be 'BUY' or 'SELL'\<close>, its last character the closing quote\<close>
  "side_message = ''Side must be 'BUY' or 'SELL'' @ [CHR 0x27]"

definition place_market_order ::
  "runtime \<Rightarrow> string \<Rightarrow> string \<Rightarrow> pyfloat \<Rightarrow> bot \<Rightarrow> (exn + pyval) \<times> bot" where
  "place_market_order rt symbol side quantity b =
     (let fail = reraise_order ''API error placing market order''
                   ''Invalid input for market order'' ''Unexpected error placing market order''
      in if py_upper side \<notin> set [''BUY'', ''SELL''] then
           fail (ValueError side_message) b
         else if le_zero quantity then
           fail (ValueError ''Quantity must be positive'') b
         else
           (let (r, b1) = call rt (FuturesCreateOrder
                                     [(''symbol'', PStr (py_upper symbol)),
                                      (''side'', PStr (py_upper side)),
                                      (''type'', PStr ''MARKET''),
                                      (''quantity'', PFloat quantity)]) b
            in case r of
                 Inl e \<Rightarrow> fail e b1
               | Inr order \<Rightarrow>
                   (let b2 = info ''Market order placed'' [PStr side, PFloat quantity, PStr symbol] b1
                    in case subscript order ''orderId'' of
                         Inl e \<Rightarrow> fail e b2
                       | Inr oid \<Rightarrow> (Inr order, info ''Order ID'' [oid] b2))))"

definition place_limit_order ::
  "runtime \<Rightarrow> string \<Rightarrow> string \<Rightarrow> pyfloat \<Rightarrow> pyfloat \<Rightarrow> bot \<Rightarrow> (exn + pyval) \<times> bot" where
  "place_limit_order rt symbol side quantity price b =
     (let fail = reraise_order ''API error placing limit order''
                   ''Invalid input for limit order'' ''Unexpected error placing limit order''
      in if py_upper side \<notin> set [''BUY'', ''SELL''] then
           fail (ValueError side_message) b
         else if le_zero quantity then
           fail (ValueError ''Quantity must be positive'') b
         else if le_zero price then
           fail (ValueError ''Price must be positive'') b
         else
           (let (r, b1) = call rt (FuturesCreateOrder
                                     [(''symbol'', PStr (py_upper symbol)),
                                      (''side'', PStr (py_upper side)),
                                      (''type'', PStr ''LIMIT''),
                                      (''timeInForce'', PStr ''GTC''),
                                      (''quantity'', PFloat quantity),
                                      (''price'', PFloat price)]) b
            in case r of
                 Inl e \<Rightarrow> fail e b1
               | Inr order \<Rightarrow>
                   (let b2 = info ''Limit order placed''
                               [PStr side, PFloat quantity, PStr symbol, PFloat price] b1
                    in case subscript order ''orderId'' of
                         Inl e \<Rightarrow> fail e b2
                       | Inr oid \<Rightarrow> (Inr order, info ''Order ID'' [oid] b2))))"

definition place_stop_limit_order ::
  "runtime \<Rightarrow> string \<Rightarrow> string \<Rightarrow> pyfloat \<Rightarrow> pyfloat \<Rightarrow> pyfloat \<Rightarrow> bot \<Rightarrow> (exn + pyval) \<times> bot" where
  "place_stop_limit_order rt symbol side quantity stop_price limit_price b =
     (let fail = reraise_order ''API error placing stop-limit order''
                   ''Invalid input for stop-limit order'' ''Unexpected error placing stop-limit order''
      in if py_upper side \<notin> set [''BUY'', ''SELL''] then
           fail (ValueError side_message) b
         else if le_zero quantity then
           fail (ValueError ''Quantity must be positive'') b
         else if le_zero stop_price \<or> le_zero limit_price then
           fail (ValueError ''Stop price and limit price must be positive'') b
         else
           (let (r, b1) = call rt (FuturesCreateOrder
                                     [(''symbol'', PStr (py_upper symbol)),
                                      (''side'', PStr (py_upper side)),
                                      (''type'', PStr ''STOP''),
                                      (''timeInForce'', PStr ''GTC''),
                                      (''quantity'', PFloat quantity),
                                      (''price'', PFloat limit_price),
                                      (''stopPrice'', PFloat stop_price)]) b
            in case r of
                 Inl e \<Rightarrow> fail e b1
               | Inr order \<Rightarrow>
                   (let b2 = info ''Stop-limit order placed'' [PStr side, PFloat quantity, PStr symbol] b1;
                        b3 = info ''Stop, Limit'' [PFloat stop_price, PFloat limit_price] b2
                    in case subscript order ''orderId'' of
                         Inl e \<Rightarrow> fail e b3
                       | Inr oid \<Rightarrow> (Inr order, info ''Order ID'' [oid] b3))))"

subsection \<open>\<^verbatim>\<open>get_order_status\<close>, \<^verbatim>\<open>cancel_order\<close>, \<^verbatim>\<open>get_open_orders\<close>\<close>

fun subscripts :: "pyval \<Rightarrow> string list \<Rightarrow> exn + (string \<times> pyval) list" where
  \<comment> \<open>\<^verbatim>\<open>{k: order[k], ...}\<close> for the keys in order; the first missing key raises\<close>
  "subscripts order [] = Inr []"
| "subscripts order (k # ks) =
     (case subscript order k of
        Inl e \<Rightarrow> Inl e
      | Inr v \<Rightarrow> (case subscripts order ks of Inl e \<Rightarrow> Inl e | Inr kvs \<Rightarrow> Inr ((k, v) # kvs)))"

definition status_info :: "runtime \<Rightarrow> pyval \<Rightarrow> exn + pyval" where
  "status_info rt order =
     (case subscripts order [''orderId'', ''symbol'', ''status'', ''type'', ''side'', ''origQty'',
                             ''executedQty'', ''price'', ''avgPrice''] of
        Inl e \<Rightarrow> Inl e
      | Inr kvs \<Rightarrow>
          (case subscript order ''time'' of
             Inl e \<Rightarrow> Inl e
           | Inr t \<Rightarrow>
               (case format_time rt t of
                  Inl e \<Rightarrow> Inl e
                | Inr text \<Rightarrow> Inr (PDict (kvs @ [(''time'', PStr text)])))))"

definition get_order_status :: "runtime \<Rightarrow> string \<Rightarrow> int \<Rightarrow> bot \<Rightarrow> (exn + pyval) \<times> bot" where
  "get_order_status rt symbol order_id b =
     (let (r, b1) = call rt (FuturesGetOrder (py_upper symbol) order_id) b
      in case (case r of Inl e \<Rightarrow> Inl e | Inr order \<Rightarrow> status_info rt order) of
           Inl e \<Rightarrow> reraise ''API error getting order status''
                      ''Unexpected error getting order status'' e b1
         | Inr st \<Rightarrow>
             (Inr st,
              info ''Order status retrieved''
                [PInt order_id, (case subscript st ''status'' of Inr v \<Rightarrow> v | Inl _ \<Rightarrow> PNone)] b1))"

definition cancel_order :: "runtime \<Rightarrow> string \<Rightarrow> int \<Rightarrow> bot \<Rightarrow> (exn + pyval) \<times> bot" where
  "cancel_order rt symbol order_id b =
     (let (r, b1) = call rt (FuturesCancelOrder (py_upper symbol) order_id) b
      in case r of
           Inl e \<Rightarrow> reraise ''API error cancelling order'' ''Unexpected error cancelling order'' e b1
         | Inr result \<Rightarrow> (Inr result, info ''Order cancelled successfully'' [PInt order_id] b1))"

definition get_open_orders :: "runtime \<Rightarrow> string option \<Rightarrow> bot \<Rightarrow> (exn + pyval) \<times> bot" where
  \<comment> \<open>\<^verbatim>\<open>if symbol:\<close> holds for a string that is not empty; \<open>None\<close> is the default \<^verbatim>\<open>None\<close>\<close>
  "get_open_orders rt symbol b =
     (let (r, b1) = (case symbol of
                       Some s \<Rightarrow> if s \<noteq> [] then call rt (FuturesGetOpenOrders (Some (py_upper s))) b
                                 else call rt (FuturesGetOpenOrders None) b
                     | None \<Rightarrow> call rt (FuturesGetOpenOrders None) b);
          fail = reraise ''API error getting open orders'' ''Unexpected error getting open orders''
      in case r of
           Inl e \<Rightarrow> fail e b1
         | Inr orders \<Rightarrow>
             (case py_len orders of
                Inl e \<Rightarrow> fail e b1
              | Inr n \<Rightarrow> (Inr orders, info ''Retrieved open orders'' [PInt (int n)] b1)))"

section \<open>The interactive shell\<close>

text \<open>
  The keyboard is a list of events, a line typed or Ctrl-C pressed at a prompt; when the
  list is used up the input is at its end, and \<^verbatim>\<open>input()\<close> raises \<^verbatim>\<open>EOFError\<close>. The
  terminal is the list of what was shown: a prompt, a fixed text, a text with the
  exception interpolated into it, a text with values interpolated into it, the menu.
  How a value is rendered as characters (\<^verbatim>\<open>{price:,.2f}\<close>) is not modelled, and the
  rules of \<open>=\<close> and \<open>-\<close> between the lines are left out.
\<close>

datatype key_event = Line string | Interrupt

datatype input_type = TStr | TInt | TFloat | TOther

datatype shown =
    Menu
  | Prompt string
  | Say string
  | SayError string exn
  | SayValues string "pyval list"

subsection \<open>\<^verbatim>\<open>get_user_input\<close>\<close>

definition convert :: "input_type \<Rightarrow> string \<Rightarrow> exn + pyval" where
  \<comment> \<open>the \<^verbatim>\<open>if input_type == str: ... elif ... else: raise ValueError\<close> chain\<close>
  "convert ty user_input =
     (case ty of
        TStr \<Rightarrow> Inr (PStr user_input)
      | TInt \<Rightarrow> (case int_of_str user_input of Inl e \<Rightarrow> Inl e | Inr i \<Rightarrow> Inr (PInt i))
      | TFloat \<Rightarrow> (case float_of_str user_input of Inl e \<Rightarrow> Inl e | Inr f \<Rightarrow> Inr (PFloat f))
      | TOther \<Rightarrow> Inl (ValueError ''Unsupported input type''))"

definition is_ValueError :: "exn \<Rightarrow> bool" where
  "is_ValueError e = (case e of ValueError _ \<Rightarrow> True | _ \<Rightarrow> False)"

text \<open>
  The result, the events left, and what this call showed. Each round of the
  \<^verbatim>\<open>while True\<close> loop takes one event, so the loop is a recursion on the list.
\<close>

fun get_user_input ::
  "string \<Rightarrow> input_type \<Rightarrow> (pyval \<Rightarrow> bool) option \<Rightarrow> key_event list \<Rightarrow>
   (exn + pyval) \<times> key_event list \<times> shown list" where
  "get_user_input prompt ty validation_func [] = (Inl EOFError, [], [Prompt prompt])"
| "get_user_input prompt ty validation_func (Interrupt # rest) =
     (Inr PNone, rest, [Prompt prompt, Say ''Operation cancelled by user.''])"
| "get_user_input prompt ty validation_func (Line raw # rest) =
     (case convert ty (py_strip raw) of
        Inl e \<Rightarrow>
          if is_ValueError e then
            (let (r, rest', out) = get_user_input prompt ty validation_func rest
             in (r, rest', Prompt prompt # SayError ''Invalid input'' e # out))
          else (Inl e, rest, [Prompt prompt])
      | Inr result \<Rightarrow>
          if (case validation_func of Some ok \<Rightarrow> \<not> ok result | None \<Rightarrow> False) then
            (let (r, rest', out) = get_user_input prompt ty validation_func rest
             in (r, rest', Prompt prompt # Say ''Invalid input. Please try again.'' # out))
          else (Inr result, rest, [Prompt prompt]))"

subsection \<open>\<^verbatim>\<open>format_account_info\<close> and \<^verbatim>\<open>format_order_info\<close>\<close>

text \<open>
  A formatting function is a sequence of statements, each of which prints some lines or
  raises; \<open>run_steps\<close> gives the lines printed up to the first exception, and that
  exception.
\<close>

fun run_steps :: "(exn + shown list) list \<Rightarrow> shown list \<times> exn option" where
  "run_steps [] = ([], None)"
| "run_steps (Inl e # rest) = ([], Some e)"
| "run_steps (Inr ls # rest) = (let (out, err) = run_steps rest in (ls @ out, err))"

definition field_line :: "string \<Rightarrow> pyval \<Rightarrow> string \<Rightarrow> exn + shown list" where
  \<comment> \<open>\<^verbatim>\<open>print(f"label {x[k]}")\<close>\<close>
  "field_line label x k =
     (case subscript x k of Inl e \<Rightarrow> Inl e | Inr v \<Rightarrow> Inr [SayValues label [v]])"

definition float_line :: "string \<Rightarrow> pyval \<Rightarrow> string \<Rightarrow> exn + shown list" where
  \<comment> \<open>\<^verbatim>\<open>print(f"label {float(x[k]):,.2f}")\<close>\<close>
  "float_line label x k =
     (case subscript x k of
        Inl e \<Rightarrow> Inl e
      | Inr v \<Rightarrow> (case py_float v of Inl e \<Rightarrow> Inl e | Inr f \<Rightarrow> Inr [SayValues label [PFloat f]]))"

definition position_steps :: "pyval \<Rightarrow> (exn + shown list) list" where
  \<comment> \<open>the body of the loop over the positions; the PnL is converted before anything is printed\<close>
  "position_steps pos =
     [case float_line ''Unrealized PnL'' pos ''unrealized_pnl'' of Inl e \<Rightarrow> Inl e | Inr _ \<Rightarrow> Inr [],
      field_line ''Symbol'' pos ''symbol'',
      field_line ''Size'' pos ''size'',
      float_line ''Entry Price'' pos ''entry_price'',
      float_line ''Unrealized PnL'' pos ''unrealized_pnl'',
      field_line ''Percentage'' pos ''percentage'']"

definition format_account_info :: "pyval \<Rightarrow> shown list \<times> exn option" where
  "format_account_info account_info =
     run_steps
       ([Inr [Say ''ACCOUNT INFORMATION''],
         float_line ''Total Wallet Balance'' account_info ''total_wallet_balance'',
         float_line ''Total Margin Balance'' account_info ''total_margin_balance'',
         float_line ''Available Balance'' account_info ''available_balance'',
         float_line ''Total Unrealized PnL'' account_info ''total_unrealized_pnl'',
         float_line ''Max Withdraw Amount'' account_info ''max_withdraw_amount''] @
        (case subscript account_info ''positions'' of
           Inl e \<Rightarrow> [Inl e]
         | Inr positions \<Rightarrow>
             if truthy positions then
               Inr [Say ''Current Positions:''] #
               (case py_iter positions of
                  Inl e \<Rightarrow> [Inl e]
                | Inr ps \<Rightarrow> concat (map position_steps ps))
             else [Inr [Say ''No open positions.'']]))"

definition average_price_line :: "pyval \<Rightarrow> exn + shown list" where
  \<comment> \<open>\<^verbatim>\<open>if float(order['avgPrice']) > 0: print(...)\<close>\<close>
  "average_price_line order =
     (case subscript order ''avgPrice'' of
        Inl e \<Rightarrow> Inl e
      | Inr v \<Rightarrow>
          (case py_float v of
             Inl e \<Rightarrow> Inl e
           | Inr f \<Rightarrow> if gt_zero f then Inr [SayValues ''Average Price'' [PFloat f]] else Inr []))"

definition format_order_info :: "pyval \<Rightarrow> shown list \<times> exn option" where
  "format_order_info order =
     run_steps
       [Inr [Say ''ORDER DETAILS''],
        field_line ''Order ID'' order ''orderId'',
        field_line ''Symbol'' order ''symbol'',
        field_line ''Side'' order ''side'',
        field_line ''Type'' order ''type'',
        field_line ''Status'' order ''status'',
        field_line ''Quantity'' order ''origQty'',
        field_line ''Executed Qty'' order ''executedQty'',
        float_line ''Price'' order ''price'',
        average_price_line order,
        field_line ''Time'' order ''time'']"

definition open_order_line :: "pyval \<Rightarrow> exn + shown list" where
  \<comment> \<open>the one line printed for an open order; its fields are read from left to right\<close>
  "open_order_line order =
     (case subscripts order [''orderId'', ''symbol'', ''side'', ''type'', ''origQty''] of
        Inl e \<Rightarrow> Inl e
      | Inr kvs \<Rightarrow>
          (case subscript order ''price'' of
             Inl e \<Rightarrow> Inl e
           | Inr p \<Rightarrow>
               (case py_float p of
                  Inl e \<Rightarrow> Inl e
                | Inr price \<Rightarrow>
                    (case subscript order ''status'' of
                       Inl e \<Rightarrow> Inl e
                     | Inr st \<Rightarrow> Inr [SayValues ''Open order'' (map snd kvs @ [PFloat price, st])]))))"

subsection \<open>The menu actions\<close>

text \<open>
  The state of the shell: the wrapper object, the events not yet read, the terminal.
\<close>

record session =
  client :: bot
  pending :: "key_event list"
  screen :: "shown list"

definition say :: "shown list \<Rightarrow> session \<Rightarrow> session" where
  "say ls s = s\<lparr>screen := screen s @ ls\<rparr>"

definition ask ::
  "string \<Rightarrow> input_type \<Rightarrow> (pyval \<Rightarrow> bool) option \<Rightarrow> session \<Rightarrow> (exn + pyval) \<times> session" where
  \<comment> \<open>\<open>get_user_input\<close> on the session's keyboard and terminal\<close>
  "ask prompt ty validation_func s =
     (let (r, rest, out) = get_user_input prompt ty validation_func (pending s)
      in (r, s\<lparr>pending := rest, screen := screen s @ out\<rparr>))"

definition perform :: "(bot \<Rightarrow> (exn + pyval) \<times> bot) \<Rightarrow> session \<Rightarrow> (exn + pyval) \<times> session" where
  \<comment> \<open>a call of a method of \<^verbatim>\<open>bot\<close>\<close>
  "perform operation s = (let (r, b) = operation (client s) in (r, s\<lparr>client := b\<rparr>))"

definition display :: "string \<Rightarrow> shown list \<times> exn option \<Rightarrow> session \<Rightarrow> session" where
  \<comment> \<open>the rest of a \<^verbatim>\<open>try\<close> block after the call, and its \<^verbatim>\<open>except Exception\<close>\<close>
  "display failure_text printed s =
     (case printed of
        (ls, None) \<Rightarrow> say ls s
      | (ls, Some e) \<Rightarrow> say (ls @ [SayError failure_text e]) s)"

text \<open>
  The values a prompt hands on. A prompt for a string returns a string or \<^verbatim>\<open>None\<close>, and so
  on (\<open>convert\<close>); \<^verbatim>\<open>None\<close> never gets past the \<^verbatim>\<open>if not ...: continue\<close> after the prompt.
\<close>

definition as_str :: "pyval \<Rightarrow> string" where
  "as_str v = (case v of PStr s \<Rightarrow> s | _ \<Rightarrow> [])"

definition as_float :: "pyval \<Rightarrow> pyfloat" where
  "as_float v = (case v of PFloat f \<Rightarrow> f | _ \<Rightarrow> Fin 0)"

definition as_int :: "pyval \<Rightarrow> int" where
  "as_int v = (case v of PInt i \<Rightarrow> i | _ \<Rightarrow> 0)"

definition side_ok :: "pyval \<Rightarrow> bool" where
  \<comment> \<open>\<^verbatim>\<open>lambda x: x.upper() in ['BUY', 'SELL']\<close>\<close>
  "side_ok x = (py_upper (as_str x) \<in> set [''BUY'', ''SELL''])"

definition positive :: "pyval \<Rightarrow> bool" where
  \<comment> \<open>\<^verbatim>\<open>lambda x: x > 0\<close>\<close>
  "positive x = gt_zero (as_float x)"

text \<open>
  Each \<^verbatim>\<open>try\<close> block of the menu, with the values the prompts collected: the call of the
  wrapper, the lines printed after it, and the handler that prints the exception.
\<close>

definition try_account :: "runtime \<Rightarrow> session \<Rightarrow> session" where
  "try_account rt s =
     (case perform (get_account_info rt) s of
        (Inl e, s1) \<Rightarrow> say [SayError ''Error getting account info'' e] s1
      | (Inr account_info, s1) \<Rightarrow>
          display ''Error getting account info'' (format_account_info account_info) s1)"

definition try_price :: "runtime \<Rightarrow> string \<Rightarrow> session \<Rightarrow> session" where
  "try_price rt symbol s =
     (case perform (get_current_price rt symbol) s of
        (Inl e, s1) \<Rightarrow> say [SayError ''Error getting price'' e] s1
      | (Inr price, s1) \<Rightarrow>
          say [SayValues ''Current price for'' [PStr (py_upper symbol), price]] s1)"

definition order_placed :: "string \<Rightarrow> pyval \<Rightarrow> shown list \<times> exn option" where
  "order_placed text order = run_steps [Inr [Say text], field_line ''Order ID'' order ''orderId'']"

definition try_market :: "runtime \<Rightarrow> string \<Rightarrow> string \<Rightarrow> pyfloat \<Rightarrow> session \<Rightarrow> session" where
  "try_market rt symbol side quantity s =
     (case perform (place_market_order rt symbol side quantity) s of
        (Inl e, s1) \<Rightarrow> say [SayError ''Error placing market order'' e] s1
      | (Inr order, s1) \<Rightarrow>
          display ''Error placing market order''
            (order_placed ''Market order placed successfully!'' order) s1)"

definition try_limit ::
  "runtime \<Rightarrow> string \<Rightarrow> string \<Rightarrow> pyfloat \<Rightarrow> pyfloat \<Rightarrow> session \<Rightarrow> session" where
  "try_limit rt symbol side quantity price s =
     (case perform (place_limit_order rt symbol side quantity price) s of
        (Inl e, s1) \<Rightarrow> say [SayError ''Error placing limit order'' e] s1
      | (Inr order, s1) \<Rightarrow>
          display ''Error placing limit order''
            (order_placed ''Limit order placed successfully!'' order) s1)"

definition try_stop_limit ::
  "runtime \<Rightarrow> string \<Rightarrow> string \<Rightarrow> pyfloat \<Rightarrow> pyfloat \<Rightarrow> pyfloat \<Rightarrow> session \<Rightarrow> session" where
  "try_stop_limit rt symbol side quantity stop_price limit_price s =
     (case perform (place_stop_limit_order rt symbol side quantity stop_price limit_price) s of
        (Inl e, s1) \<Rightarrow> say [SayError ''Error placing stop-limit order'' e] s1
      | (Inr order, s1) \<Rightarrow>
          display ''Error placing stop-limit order''
            (order_placed ''Stop-limit order placed successfully!'' order) s1)"

definition try_status :: "runtime \<Rightarrow> string \<Rightarrow> int \<Rightarrow> session \<Rightarrow> session" where
  "try_status rt symbol order_id s =
     (case perform (get_order_status rt symbol order_id) s of
        (Inl e, s1) \<Rightarrow> say [SayError ''Error getting order status'' e] s1
      | (Inr order_status, s1) \<Rightarrow>
          display ''Error getting order status'' (format_order_info order_status) s1)"

definition try_cancel :: "runtime \<Rightarrow> string \<Rightarrow> int \<Rightarrow> session \<Rightarrow> session" where
  "try_cancel rt symbol order_id s =
     (case perform (cancel_order rt symbol order_id) s of
        (Inl e, s1) \<Rightarrow> say [SayError ''Error cancelling order'' e] s1
      | (Inr result, s1) \<Rightarrow> say [SayValues ''Order cancelled successfully!'' [PInt order_id]] s1)"

definition try_open_orders :: "runtime \<Rightarrow> string option \<Rightarrow> session \<Rightarrow> session" where
  "try_open_orders rt symbol s =
     (case perform (get_open_orders rt symbol) s of
        (Inl e, s1) \<Rightarrow> say [SayError ''Error getting open orders'' e] s1
      | (Inr orders, s1) \<Rightarrow>
          display ''Error getting open orders''
            (if truthy orders then
               run_steps
                 ((case py_len orders of
                     Inl e \<Rightarrow> Inl e
                   | Inr n \<Rightarrow> Inr [SayValues ''Open Orders'' [PInt (int n)]]) #
                  (case py_iter orders of Inl e \<Rightarrow> [Inl e] | Inr os \<Rightarrow> map open_order_line os))
             else ([Say ''No open orders found.''], None)) s1)"

text \<open>
  The branches of the menu. A branch ends the round (\<open>None\<close>) or lets an exception out to
  the handler of the loop (\<open>Some e\<close>): the prompts stand outside the \<^verbatim>\<open>try\<close> blocks above.
  \<^verbatim>\<open>if not x: continue\<close> is \<open>\<not> truthy x\<close>.
\<close>

definition ask_symbol :: "session \<Rightarrow> (exn + pyval) \<times> session" where
  "ask_symbol s = ask ''Enter symbol (e.g., BTCUSDT): '' TStr None s"

definition ask_side :: "session \<Rightarrow> (exn + pyval) \<times> session" where
  "ask_side s = ask ''Enter side (BUY/SELL): '' TStr (Some side_ok) s"

definition ask_positive :: "string \<Rightarrow> session \<Rightarrow> (exn + pyval) \<times> session" where
  "ask_positive prompt s = ask prompt TFloat (Some positive) s"

definition choice_price :: "runtime \<Rightarrow> session \<Rightarrow> exn option \<times> session" where
  "choice_price rt s =
     (case ask_symbol s of
        (Inl e, s1) \<Rightarrow> (Some e, s1)
      | (Inr symbol, s1) \<Rightarrow>
          if truthy symbol then (None, try_price rt (as_str symbol) s1) else (None, s1))"

definition choice_market :: "runtime \<Rightarrow> session \<Rightarrow> exn option \<times> session" where
  "choice_market rt s =
     (case ask_symbol (say [Say ''--- Place Market Order ---''] s) of
        (Inl e, s1) \<Rightarrow> (Some e, s1)
      | (Inr symbol, s1) \<Rightarrow>
          if \<not> truthy symbol then (None, s1) else
          (case ask_side s1 of
             (Inl e, s2) \<Rightarrow> (Some e, s2)
           | (Inr side, s2) \<Rightarrow>
               if \<not> truthy side then (None, s2) else
               (case ask_positive ''Enter quantity: '' s2 of
                  (Inl e, s3) \<Rightarrow> (Some e, s3)
                | (Inr quantity, s3) \<Rightarrow>
                    if \<not> truthy quantity then (None, s3) else
                    (None, try_market rt (as_str symbol) (as_str side) (as_float quantity) s3))))"

definition choice_limit :: "runtime \<Rightarrow> session \<Rightarrow> exn option \<times> session" where
  "choice_limit rt s =
     (case ask_symbol (say [Say ''--- Place Limit Order ---''] s) of
        (Inl e, s1) \<Rightarrow> (Some e, s1)
      | (Inr symbol, s1) \<Rightarrow>
          if \<not> truthy symbol then (None, s1) else
          (case ask_side s1 of
             (Inl e, s2) \<Rightarrow> (Some e, s2)
           | (Inr side, s2) \<Rightarrow>
               if \<not> truthy side then (None, s2) else
               (case ask_positive ''Enter quantity: '' s2 of
                  (Inl e, s3) \<Rightarrow> (Some e, s3)
                | (Inr quantity, s3) \<Rightarrow>
                    if \<not> truthy quantity then (None, s3) else
                    (case ask_positive ''Enter limit price: '' s3 of
                       (Inl e, s4) \<Rightarrow> (Some e, s4)
                     | (Inr price, s4) \<Rightarrow>
                         if \<not> truthy price then (None, s4) else
                         (None, try_limit rt (as_str symbol) (as_str side) (as_float quantity)
                                  (as_float price) s4)))))"

definition choice_stop_limit :: "runtime \<Rightarrow> session \<Rightarrow> exn option \<times> session" where
  "choice_stop_limit rt s =
     (case ask_symbol (say [Say ''--- Place Stop-Limit Order ---''] s) of
        (Inl e, s1) \<Rightarrow> (Some e, s1)
      | (Inr symbol, s1) \<Rightarrow>
          if \<not> truthy symbol then (None, s1) else
          (case ask_side s1 of
             (Inl e, s2) \<Rightarrow> (Some e, s2)
           | (Inr side, s2) \<Rightarrow>
               if \<not> truthy side then (None, s2) else
               (case ask_positive ''Enter quantity: '' s2 of
                  (Inl e, s3) \<Rightarrow> (Some e, s3)
                | (Inr quantity, s3) \<Rightarrow>
                    if \<not> truthy quantity then (None, s3) else
                    (case ask_positive ''Enter stop price: '' s3 of
                       (Inl e, s4) \<Rightarrow> (Some e, s4)
                     | (Inr stop_price, s4) \<Rightarrow>
                         if \<not> truthy stop_price then (None, s4) else
                         (case ask_positive ''Enter limit price: '' s4 of
                            (Inl e, s5) \<Rightarrow> (Some e, s5)
                          | (Inr limit_price, s5) \<Rightarrow>
                              if \<not> truthy limit_price then (None, s5) else
                              (None, try_stop_limit rt (as_str symbol) (as_str side)
                                       (as_float quantity) (as_float stop_price)
                                       (as_float limit_price) s5))))))"

definition choice_status :: "runtime \<Rightarrow> session \<Rightarrow> exn option \<times> session" where
  "choice_status rt s =
     (case ask_symbol s of
        (Inl e, s1) \<Rightarrow> (Some e, s1)
      | (Inr symbol, s1) \<Rightarrow>
          if \<not> truthy symbol then (None, s1) else
          (case ask ''Enter order ID: '' TInt None s1 of
             (Inl e, s2) \<Rightarrow> (Some e, s2)
           | (Inr order_id, s2) \<Rightarrow>
               if \<not> truthy order_id then (None, s2) else
               (None, try_status rt (as_str symbol) (as_int order_id) s2)))"

definition choice_cancel :: "runtime \<Rightarrow> session \<Rightarrow> exn option \<times> session" where
  "choice_cancel rt s =
     (case ask_symbol s of
        (Inl e, s1) \<Rightarrow> (Some e, s1)
      | (Inr symbol, s1) \<Rightarrow>
          if \<not> truthy symbol then (None, s1) else
          (case ask ''Enter order ID to cancel: '' TInt None s1 of
             (Inl e, s2) \<Rightarrow> (Some e, s2)
           | (Inr order_id, s2) \<Rightarrow>
               if \<not> truthy order_id then (None, s2) else
               (None, try_cancel rt (as_str symbol) (as_int order_id) s2)))"

definition choice_open_orders :: "runtime \<Rightarrow> session \<Rightarrow> exn option \<times> session" where
  "choice_open_orders rt s =
     (case ask ''Enter symbol (optional, press Enter for all): '' TStr None s of
        (Inl e, s1) \<Rightarrow> (Some e, s1)
      | (Inr symbol, s1) \<Rightarrow>
          (None, try_open_orders rt (if truthy symbol then Some (as_str symbol) else None) s1))"

subsection \<open>The main loop\<close>

datatype control = Continue | Break

definition unexpected :: "exn \<Rightarrow> session \<Rightarrow> session" where
  \<comment> \<open>the loop's \<^verbatim>\<open>except Exception\<close>: print, and log\<close>
  "unexpected e s =
     (say [SayError ''Unexpected error'' e] s)
       \<lparr>client := error ''Unexpected error in main loop'' e (client s)\<rparr>"

definition dispatch :: "runtime \<Rightarrow> pyval \<Rightarrow> session \<Rightarrow> control \<times> exn option \<times> session" where
  \<comment> \<open>the \<^verbatim>\<open>if choice is None ... elif choice == 1 ... else\<close> chain\<close>
  "dispatch rt choice s =
     (if choice = PNone then (Break, None, s)
      else if choice = PInt 1 then (Continue, None, try_account rt s)
      else if choice = PInt 2 then (Continue, choice_price rt s)
      else if choice = PInt 3 then (Continue, choice_market rt s)
      else if choice = PInt 4 then (Continue, choice_limit rt s)
      else if choice = PInt 5 then (Continue, choice_stop_limit rt s)
      else if choice = PInt 6 then (Continue, choice_status rt s)
      else if choice = PInt 7 then (Continue, choice_cancel rt s)
      else if choice = PInt 8 then (Continue, choice_open_orders rt s)
      else if choice = PInt 9 then
        (Break, None, say [Say ''Thank you for using Binance Futures Trading Bot!''] s)
      else
        (Continue, None, say [Say ''Invalid choice. Please select a number between 1 and 9.''] s))"

definition menu_iteration :: "runtime \<Rightarrow> session \<Rightarrow> control \<times> session" where
  \<comment> \<open>one round of the \<^verbatim>\<open>while True\<close> loop of \<open>main\<close>\<close>
  "menu_iteration rt s =
     (case ask ''Enter your choice (1-9): '' TInt None (say [Menu] s) of
        (Inl e, s1) \<Rightarrow> (Continue, unexpected e s1)
      | (Inr choice, s1) \<Rightarrow>
          (case dispatch rt choice s1 of
             (ctl, None, s2) \<Rightarrow> (ctl, s2)
           | (ctl, Some e, s2) \<Rightarrow> (Continue, unexpected e s2)))"

text \<open>
  The loop ends when a round breaks out of it. It need not end: at the end of the input
  every round raises \<^verbatim>\<open>EOFError\<close> at the prompt for the choice, prints it and goes on. So the
  loop is a partial function, \<open>None\<close> where it runs for ever.
\<close>

partial_function (option) main_loop :: "runtime \<Rightarrow> session \<Rightarrow> session option" where
  "main_loop rt s =
     (case menu_iteration rt s of
        (ctl, s') \<Rightarrow> if ctl = Break then Some s' else main_loop rt s')"

declare main_loop.simps [code]

text \<open>
  \<open>main\<close>, from the two environment variables and the keyboard: the terminal and the log
  at the end, with the exception that ended the program if one did (a prompt for a
  credential stands outside every \<^verbatim>\<open>try\<close>).
\<close>

definition start :: "runtime \<Rightarrow> string \<Rightarrow> string \<Rightarrow> session \<Rightarrow> (exn option \<times> session) option" where
  \<comment> \<open>\<open>main\<close> from \<^verbatim>\<open>bot = BinanceFuturesBot(api_key, api_secret, testnet=True)\<close> on\<close>
  "start rt key secret s =
     (case init rt key secret True (logged (client s)) of
        (Inl e, b) \<Rightarrow>
          Some (None, say [SayError ''Failed to connect to Binance'' e] (s\<lparr>client := b\<rparr>))
      | (Inr _, b) \<Rightarrow>
          (case main_loop rt
                  (say [Say ''Successfully connected to Binance Futures Testnet!'']
                     (s\<lparr>client := b\<rparr>)) of
             None \<Rightarrow> None
           | Some s' \<Rightarrow> Some (None, s')))"

definition enter_credentials :: "runtime \<Rightarrow> session \<Rightarrow> (exn option \<times> session) option" where
  \<comment> \<open>the branch \<^verbatim>\<open>if not api_key or not api_secret\<close>\<close>
  "enter_credentials rt s =
     (case ask ''Enter your Binance API Key: '' TStr None
             (say [Say ''API credentials not found in environment variables.'',
                   Say ''Please create a .env file with the following content:'',
                   Say ''BINANCE_API_KEY=your_api_key_here'',
                   Say ''BINANCE_API_SECRET=your_api_secret_here'',
                   Say ''Alternatively, enter them now:''] s) of
        (Inl e, s1) \<Rightarrow> Some (Some e, s1)
      | (Inr key, s1) \<Rightarrow>
          if \<not> truthy key then Some (None, s1) else
          (case ask ''Enter your Binance API Secret: '' TStr None s1 of
             (Inl e, s2) \<Rightarrow> Some (Some e, s2)
           | (Inr secret, s2) \<Rightarrow>
               if \<not> truthy secret then Some (None, s2)
               else start rt (as_str key) (as_str secret) s2))"

definition main ::
  "runtime \<Rightarrow> string option \<Rightarrow> string option \<Rightarrow> key_event list \<Rightarrow> (exn option \<times> session) option" where
  "main rt env_key env_secret keys =
     (let s0 = \<lparr>client = \<lparr>api_key = [], api_secret = [], testnet = True, issued = [], logged = []\<rparr>,
                pending = keys,
                screen = [Say ''Welcome to Binance Futures Trading Bot!'',
                          Say ''This bot connects to Binance Futures Testnet for safe trading practice.'']\<rparr>
      in case (env_key, env_secret) of
           (Some key, Some secret) \<Rightarrow>
             if key = [] \<or> secret = [] then enter_credentials rt s0 else start rt key secret s0
         | _ \<Rightarrow> enter_credentials rt s0)"

section \<open>An exchange to run the operations on\<close>

text \<open>
  A small exchange for the concrete runs below: an account with one open position and one
  closed one, a ticker for one symbol, two open orders, and no order to query or cancel.
\<close>

definition sample_orders :: "pyval list" where
  "sample_orders =
     [PDict [(''orderId'', PInt 7), (''symbol'', PStr ''BTCUSDT''), (''side'', PStr ''BUY''),
             (''type'', PStr ''LIMIT''), (''origQty'', PStr ''0.010''), (''price'', PStr ''50000.00''),
             (''status'', PStr ''NEW'')],
      PDict [(''orderId'', PInt 9), (''symbol'', PStr ''ETHUSDT''), (''side'', PStr ''SELL''),
             (''type'', PStr ''LIMIT''), (''origQty'', PStr ''0.500''), (''price'', PStr ''4000.00''),
             (''status'', PStr ''NEW'')]]"

definition sample_account :: pyval where
  "sample_account =
     PDict [(''totalWalletBalance'', PStr ''1000.00''),
            (''availableBalance'', PStr ''900.00''),
            (''positions'',
             PList [PDict [(''symbol'', PStr ''BTCUSDT''), (''positionAmt'', PStr ''0.010''),
                           (''entryPrice'', PStr ''50000.0'')],
                    PDict [(''symbol'', PStr ''ETHUSDT''), (''positionAmt'', PStr ''0.000''),
                           (''entryPrice'', PStr ''0.0'')]])]"

definition sample_exchange :: "request list \<Rightarrow> request \<Rightarrow> exn + pyval" where
  "sample_exchange past r =
     (case r of
        FuturesAccount \<Rightarrow> Inr sample_account
      | FuturesSymbolTicker s \<Rightarrow>
          if s = ''BTCUSDT'' then Inr (PDict [(''symbol'', PStr s), (''price'', PStr ''50000.10'')])
          else Inl (BinanceAPIException ''Invalid symbol.'')
      | FuturesCreateOrder params \<Rightarrow> Inr (PDict ((''orderId'', PInt (int (length past) + 1)) # params))
      | FuturesGetOrder s i \<Rightarrow> Inl (BinanceAPIException ''Order does not exist.'')
      | FuturesCancelOrder s i \<Rightarrow> Inl (BinanceAPIException ''Unknown order sent.'')
      | FuturesGetOpenOrders None \<Rightarrow> Inr (PList sample_orders)
      | FuturesGetOpenOrders (Some s) \<Rightarrow>
          Inr (PList (filter (\<lambda>ord. subscript ord ''symbol'' = Inr (PStr s)) sample_orders)))"

definition sample_runtime :: runtime where
  "sample_runtime =
     \<lparr>exchange = sample_exchange, format_time = (\<lambda>t. Inr ''2025-07-01 00:00:00''),
      connect = (\<lambda>key secret tn. None)\<rparr>"

definition sample_bot :: bot where
  "sample_bot =
     \<lparr>api_key = ''key'', api_secret = ''secret'', testnet = True, issued = [], logged = []\<rparr>"


definition zero_id_session :: session where
  \<comment> \<open>the user asks for the status of order \<open>0\<close>\<close>
  "zero_id_session =
     \<lparr>client = sample_bot,
      pending = [Line ''6'', Line ''btcusdt'', Line ''0'', Line ''9''],
      screen = []\<rparr>"

section \<open>Notions the properties are stated with\<close>

text \<open>
  A call of one of the wrapper's methods, and a run of such calls one after the other; a
  call that raises leaves the object to the next one, as the shell does.
\<close>

datatype operation =
    GetAccountInfo
  | GetCurrentPrice string
  | PlaceMarketOrder string string pyfloat
  | PlaceLimitOrder string string pyfloat pyfloat
  | PlaceStopLimitOrder string string pyfloat pyfloat pyfloat
  | GetOrderStatus string int
  | CancelOrder string int
  | GetOpenOrders "string option"

fun apply_operation :: "runtime \<Rightarrow> operation \<Rightarrow> bot \<Rightarrow> (exn + pyval) \<times> bot" where
  "apply_operation rt GetAccountInfo b = get_account_info rt b"
| "apply_operation rt (GetCurrentPrice symbol) b = get_current_price rt symbol b"
| "apply_operation rt (PlaceMarketOrder symbol side quantity) b =
     place_market_order rt symbol side quantity b"
| "apply_operation rt (PlaceLimitOrder symbol side quantity price) b =
     place_limit_order rt symbol side quantity price b"
| "apply_operation rt (PlaceStopLimitOrder symbol side quantity stop_price limit_price) b =
     place_stop_limit_order rt symbol side quantity stop_price limit_price b"
| "apply_operation rt (GetOrderStatus symbol order_id) b = get_order_status rt symbol order_id b"
| "apply_operation rt (CancelOrder symbol order_id) b = cancel_order rt symbol order_id b"
| "apply_operation rt (GetOpenOrders symbol) b = get_open_orders rt symbol b"

fun apply_operations :: "runtime \<Rightarrow> operation list \<Rightarrow> bot \<Rightarrow> bot" where
  "apply_operations rt [] b = b"
| "apply_operations rt (x # xs) b = apply_operations rt xs (snd (apply_operation rt x b))"

text \<open>
  The same call with the symbol upper-cased by the caller.
\<close>

fun with_upper_symbol :: "operation \<Rightarrow> operation" where
  "with_upper_symbol GetAccountInfo = GetAccountInfo"
| "with_upper_symbol (GetCurrentPrice symbol) = GetCurrentPrice (py_upper symbol)"
| "with_upper_symbol (PlaceMarketOrder symbol side quantity) =
     PlaceMarketOrder (py_upper symbol) side quantity"
| "with_upper_symbol (PlaceLimitOrder symbol side quantity price) =
     PlaceLimitOrder (py_upper symbol) side quantity price"
| "with_upper_symbol (PlaceStopLimitOrder symbol side quantity stop_price limit_price) =
     PlaceStopLimitOrder (py_upper symbol) side quantity stop_price limit_price"
| "with_upper_symbol (GetOrderStatus symbol order_id) = GetOrderStatus (py_upper symbol) order_id"
| "with_upper_symbol (CancelOrder symbol order_id) = CancelOrder (py_upper symbol) order_id"
| "with_upper_symbol (GetOpenOrders symbol) = GetOpenOrders (map_option py_upper symbol)"

text \<open>
  What a position of the exchange's answer says: a field of it (\<^verbatim>\<open>None\<close> when the field is
  missing), and its amount as a number (a missing amount counts as \<open>0\<close>).
\<close>

definition read_field :: "(string \<times> pyval) list \<Rightarrow> string \<Rightarrow> pyval" where
  "read_field d k = (case map_of d k of Some v \<Rightarrow> v | None \<Rightarrow> PNone)"

definition position_amt :: "(string \<times> pyval) list \<Rightarrow> exn + pyfloat" where
  "position_amt d = py_float (case map_of d ''positionAmt'' of Some v \<Rightarrow> v | None \<Rightarrow> PInt 0)"

definition balance :: "(string \<times> pyval) list \<Rightarrow> string \<Rightarrow> pyval" where
  \<comment> \<open>a balance of the answer; \<^verbatim>\<open>'0'\<close> stands in for one the answer does not have\<close>
  "balance kvs k = (case map_of kvs k of Some v \<Rightarrow> v | None \<Rightarrow> PStr ''0'')"


section \<open>Auxiliary facts\<close>

subsection \<open>Logging and re-raising touch neither the result nor the calls made\<close>

lemma issued_error [simp]: "issued (error text e b) = issued b"
  by (simp add: error_def)

lemma issued_info [simp]: "issued (info text args b) = issued b"
  by (simp add: info_def)

lemma reraise_order_result [simp]: "fst (reraise_order t1 t2 t3 e b) = Inl e"
  by (simp add: reraise_order_def split: exn.splits)

lemma reraise_order_issued [simp]: "issued (snd (reraise_order t1 t2 t3 e b)) = issued b"
  by (simp add: reraise_order_def split: exn.splits)

lemma reraise_result [simp]: "fst (reraise t1 t2 e b) = Inl e"
  by (simp add: reraise_def split: exn.splits)

lemma reraise_issued [simp]: "issued (snd (reraise t1 t2 e b)) = issued b"
  by (simp add: reraise_def split: exn.splits)

lemma py_upper_samples:
  "py_upper ''buy'' = ''BUY''" "py_upper ''sell'' = ''SELL''" "py_upper ''hold'' = ''HOLD''"
  "py_upper ''btcusdt'' = ''BTCUSDT''" "py_upper ''BTCUSDT'' = ''BTCUSDT''"
  "py_upper ''BUY'' = ''BUY''" "py_upper ''HOLD'' = ''HOLD''"
  by code_simp+

lemma side_message_neq:
  "side_message \<noteq> ''Quantity must be positive''"
  by (simp add: side_message_def)

subsection \<open>Upper-casing twice is upper-casing once\<close>

lemma upper_char_idem: "upper_char (upper_char c) = upper_char c"
proof (cases "97 \<le> (of_char c :: nat) \<and> (of_char c :: nat) \<le> 122")
  case True
  then have "(of_char c - 32 :: nat) < 256"
    by arith
  then have small: "(of_char c - 32 :: nat) mod 256 = of_char c - 32"
    by (rule mod_less)
  have "\<not> (97 \<le> (of_char c - 32 :: nat) \<and> (of_char c - 32 :: nat) \<le> 122)"
    using True by arith
  then have "upper_char (char_of (of_char c - 32 :: nat)) = char_of (of_char c - 32 :: nat)"
    by (simp only: upper_char_def Let_def of_char_of small if_False)
  moreover have "upper_char c = char_of (of_char c - 32 :: nat)"
    using True by (simp add: upper_char_def Let_def)
  ultimately show ?thesis
    by simp
next
  case False
  then have "upper_char c = c"
    by (simp only: upper_char_def Let_def if_False)
  then show ?thesis
    by simp
qed

lemma py_upper_idem [simp]: "py_upper (py_upper s) = py_upper s"
  by (simp add: py_upper_def upper_char_idem)

lemma py_upper_empty [simp]: "py_upper s = [] \<longleftrightarrow> s = []"
  by (simp add: py_upper_def)

subsection \<open>A conversion fails with a \<^verbatim>\<open>ValueError\<close> only\<close>


subsection \<open>What logging, re-raising and calling leave alone\<close>

lemma keeps_error [simp]:
  "api_key (error t e b) = api_key b" "api_secret (error t e b) = api_secret b"
  "testnet (error t e b) = testnet b"
  by (simp_all add: error_def)

lemma keeps_info [simp]:
  "api_key (info t a b) = api_key b" "api_secret (info t a b) = api_secret b"
  "testnet (info t a b) = testnet b"
  by (simp_all add: info_def)

lemma keeps_reraise [simp]:
  "api_key (snd (reraise t1 t2 e b)) = api_key b"
  "api_secret (snd (reraise t1 t2 e b)) = api_secret b"
  "testnet (snd (reraise t1 t2 e b)) = testnet b"
  by (simp_all add: reraise_def split: exn.splits)

lemma keeps_reraise_order [simp]:
  "api_key (snd (reraise_order t1 t2 t3 e b)) = api_key b"
  "api_secret (snd (reraise_order t1 t2 t3 e b)) = api_secret b"
  "testnet (snd (reraise_order t1 t2 t3 e b)) = testnet b"
  by (simp_all add: reraise_order_def split: exn.splits)

lemma keeps_call [simp]:
  "api_key (snd (call rt r b)) = api_key b" "api_secret (snd (call rt r b)) = api_secret b"
  "testnet (snd (call rt r b)) = testnet b"
  by (simp_all add: call_def)

lemma apply_operation_keeps:
  "api_key (snd (apply_operation rt x b)) = api_key b \<and>
   api_secret (snd (apply_operation rt x b)) = api_secret b \<and>
   testnet (snd (apply_operation rt x b)) = testnet b"
  by (cases x)
    (auto simp: get_account_info_def get_current_price_def place_market_order_def
      place_limit_order_def place_stop_limit_order_def get_order_status_def cancel_order_def
      get_open_orders_def Let_def split_beta split: sum.splits option.splits)

lemma apply_operations_keeps:
  "api_key (apply_operations rt xs b) = api_key b \<and>
   api_secret (apply_operations rt xs b) = api_secret b \<and>
   testnet (apply_operations rt xs b) = testnet b"
  by (induction xs arbitrary: b) (simp_all add: apply_operation_keeps)

subsection \<open>The loop over the positions\<close>

lemma collect_positions_kept:
  assumes "\<forall>d \<in> set ds. \<exists>f. position_amt d = Inr f"
  shows "collect_positions (map PDict ds) acc =
           Inr (acc @ map position_entry (filter (\<lambda>d. position_amt d \<noteq> Inr (Fin 0)) ds))"
  using assms
proof (induction ds arbitrary: acc)
  case Nil
  show ?case by simp
next
  case (Cons d ds)
  then obtain f where f: "position_amt d = Inr f" by auto
  then have amt: "py_float (case map_of d ''positionAmt'' of None \<Rightarrow> PInt 0 | Some v \<Rightarrow> v) = Inr f"
    by (simp add: position_amt_def)
  from Cons have rest: "\<And>acc. collect_positions (map PDict ds) acc =
      Inr (acc @ map position_entry (filter (\<lambda>d. position_amt d \<noteq> Inr (Fin 0)) ds))"
    by simp
  show ?case
    using f amt by (simp add: dict_get_def ne_zero_def rest)
qed

subsection \<open>Converting the sample texts to floats\<close>

lemma round_double_ordinary:
  assumes "1 / 1000000 \<le> \<bar>r\<bar>" and "\<bar>r\<bar> \<le> 1000000000000"
  shows "round_double r = Fin r"
proof -
  have "(2::rat) ^ 20 \<le> 2 ^ 1075"
    by (rule power_increasing) simp_all
  moreover have "(1000000::rat) < 2 ^ 20"
    by simp
  ultimately have big: "(1000000::rat) < 2 ^ 1075"
    by (rule less_le_trans [rotated])
  have "(1::rat) / 2 ^ 1075 < 1 / 1000000"
    by (rule divide_strict_left_mono [OF big]) (simp_all add: zero_less_mult_iff)
  then have tiny: "\<not> \<bar>r\<bar> \<le> 1 / 2 ^ 1075"
    using assms(1) by linarith
  have "(2::rat) ^ 1024 = 2 ^ 970 * 2 ^ 54"
    by (simp only: flip: power_add) simp
  then have "(2::rat) ^ 1024 - 2 ^ 970 = 2 ^ 970 * (2 ^ 54 - 1)"
    by (simp only: right_diff_distrib mult_1_right)
  moreover have "(2::rat) ^ 40 \<le> 2 ^ 970"
    by (rule power_increasing) simp_all
  moreover have "(1::rat) \<le> 2 ^ 54 - 1"
    by simp
  moreover have "(0::rat) \<le> 2 ^ 40"
    by simp
  ultimately have "(2::rat) ^ 40 * 1 \<le> 2 ^ 1024 - 2 ^ 970"
    by (simp only: mult_mono)
  moreover have "(1000000000000::rat) < 2 ^ 40 * 1"
    by simp
  ultimately have "(1000000000000::rat) < 2 ^ 1024 - 2 ^ 970"
    by (rule less_le_trans [rotated])
  then have huge: "\<not> \<bar>r\<bar> \<ge> 2 ^ 1024 - 2 ^ 970"
    using assms(2) by linarith
  show ?thesis
    using tiny huge by (simp only: round_double_def if_False)
qed

lemma round_double_zero: "round_double 0 = Fin 0"
  by (simp add: round_double_def)

lemma float_of_str_samples:
  "float_of_str ''0.010'' = Inr (Fin (1 / 100))"
  "float_of_str ''0.000'' = Inr (Fin 0)"
  "float_of_str ''50000.10'' = Inr (Fin (500001 / 10))"
  by (simp_all add: float_of_str_def decimal_of_str_def py_strip_def is_space_def split_sign_def
      is_digit_def digit_val_def digits_val_def lower_char_def Let_def round_double_zero
      round_double_ordinary)

subsection \<open>The rounds of the menu\<close>






subsection \<open>What is on the terminal stays there\<close>




























section \<open>Properties of the wrapper and of the shell\<close>

subsection \<open>Which check a validation error names\<close>

text \<open>
  C1 (as the code has it). The checks run in the order side, quantity, price, and the
  first one that fails raises. A side that is neither \<^verbatim>\<open>BUY\<close> nor \<^verbatim>\<open>SELL\<close> in any case makes
  each of the three placement operations raise \<^verbatim>\<open>ValueError("Side must be 'BUY' or 'SELL'")\<close>,
  whatever the quantity and the prices are. With a valid side, a quantity \<open>\<le> 0\<close> makes each
  of the three raise \<^verbatim>\<open>ValueError("Quantity must be positive")\<close>, whatever the prices are.
  With a valid side and a quantity that passes, a price \<open>\<le> 0\<close> makes \<open>place_limit_order\<close>
  raise \<^verbatim>\<open>ValueError("Price must be positive")\<close>, and a stop price or a limit price \<open>\<le> 0\<close>
  makes \<open>place_stop_limit_order\<close> raise the one message the two prices share,
  \<^verbatim>\<open>ValueError("Stop price and limit price must be positive")\<close>.
\<close>

theorem validation_names_first_failed_check:
  "(py_upper side \<notin> {''BUY'', ''SELL''} \<longrightarrow>
      fst (place_market_order rt symbol side quantity b) = Inl (ValueError side_message) \<and>
      fst (place_limit_order rt symbol side quantity price b) = Inl (ValueError side_message) \<and>
      fst (place_stop_limit_order rt symbol side quantity stop_price limit_price b) =
        Inl (ValueError side_message)) \<and>
   (py_upper side \<in> {''BUY'', ''SELL''} \<and> le_zero quantity \<longrightarrow>
      fst (place_market_order rt symbol side quantity b) =
        Inl (ValueError ''Quantity must be positive'') \<and>
      fst (place_limit_order rt symbol side quantity price b) =
        Inl (ValueError ''Quantity must be positive'') \<and>
      fst (place_stop_limit_order rt symbol side quantity stop_price limit_price b) =
        Inl (ValueError ''Quantity must be positive'')) \<and>
   (py_upper side \<in> {''BUY'', ''SELL''} \<and> \<not> le_zero quantity \<and> le_zero price \<longrightarrow>
      fst (place_limit_order rt symbol side quantity price b) =
        Inl (ValueError ''Price must be positive'')) \<and>
   (py_upper side \<in> {''BUY'', ''SELL''} \<and> \<not> le_zero quantity \<and>
    (le_zero stop_price \<or> le_zero limit_price) \<longrightarrow>
      fst (place_stop_limit_order rt symbol side quantity stop_price limit_price b) =
        Inl (ValueError ''Stop price and limit price must be positive''))"
  by (simp add: place_market_order_def place_limit_order_def place_stop_limit_order_def Let_def)

theorem validation_names_first_failed_check_witness:
  "py_upper ''hold'' \<notin> {''BUY'', ''SELL''} \<and> py_upper ''buy'' \<in> {''BUY'', ''SELL''} \<and>
   le_zero (Fin (- 1)) \<and> \<not> le_zero (Fin 2) \<and>
   fst (place_market_order sample_runtime ''btcusdt'' ''hold'' (Fin (- 1)) sample_bot) =
     Inl (ValueError side_message) \<and>
   fst (place_limit_order sample_runtime ''btcusdt'' ''hold'' (Fin (- 1)) (Fin (- 1)) sample_bot) =
     Inl (ValueError side_message) \<and>
   fst (place_stop_limit_order sample_runtime ''btcusdt'' ''hold'' (Fin (- 1)) (Fin 2) (Fin (- 1))
          sample_bot) =
     Inl (ValueError side_message) \<and>
   fst (place_market_order sample_runtime ''btcusdt'' ''buy'' (Fin (- 1)) sample_bot) =
     Inl (ValueError ''Quantity must be positive'') \<and>
   fst (place_limit_order sample_runtime ''btcusdt'' ''buy'' (Fin (- 1)) (Fin (- 1)) sample_bot) =
     Inl (ValueError ''Quantity must be positive'') \<and>
   fst (place_stop_limit_order sample_runtime ''btcusdt'' ''buy'' (Fin (- 1)) (Fin 2) (Fin (- 1))
          sample_bot) =
     Inl (ValueError ''Quantity must be positive'') \<and>
   fst (place_limit_order sample_runtime ''btcusdt'' ''buy'' (Fin 2) (Fin (- 1)) sample_bot) =
     Inl (ValueError ''Price must be positive'') \<and>
   fst (place_stop_limit_order sample_runtime ''btcusdt'' ''buy'' (Fin 2) (Fin 2) (Fin (- 1)) sample_bot) =
     Inl (ValueError ''Stop price and limit price must be positive'')"
proof -
  from validation_names_first_failed_check
      [where side = "''hold''" and quantity = "Fin (- 1)" and price = "Fin (- 1)"
         and stop_price = "Fin 2" and limit_price = "Fin (- 1)" and rt = sample_runtime
         and symbol = "''btcusdt''" and b = sample_bot]
    validation_names_first_failed_check
      [where side = "''buy''" and quantity = "Fin (- 1)" and price = "Fin (- 1)"
         and stop_price = "Fin 2" and limit_price = "Fin (- 1)" and rt = sample_runtime
         and symbol = "''btcusdt''" and b = sample_bot]
    validation_names_first_failed_check
      [where side = "''buy''" and quantity = "Fin 2" and price = "Fin (- 1)"
         and stop_price = "Fin 2" and limit_price = "Fin (- 1)" and rt = sample_runtime
         and symbol = "''btcusdt''" and b = sample_bot]
  show ?thesis
    by (simp add: py_upper_samples le_zero_def)
qed

text \<open>
  C1 as the specification words it fails: whether the stop price or the limit price is the
  one that is not positive, the error is the same, so its message does not tell which of
  the two failed; and with an invalid side, a quantity that is not positive is not named
  at all.
\<close>

theorem message_names_exact_field_counterexample:
  "fst (place_stop_limit_order sample_runtime ''BTCUSDT'' ''BUY'' (Fin 1) (Fin (- 1)) (Fin 100) sample_bot) =
     Inl (ValueError ''Stop price and limit price must be positive'') \<and>
   fst (place_stop_limit_order sample_runtime ''BTCUSDT'' ''BUY'' (Fin 1) (Fin 100) (Fin (- 1)) sample_bot) =
     Inl (ValueError ''Stop price and limit price must be positive'') \<and>
   fst (place_market_order sample_runtime ''BTCUSDT'' ''HOLD'' (Fin (- 1)) sample_bot) =
     Inl (ValueError side_message) \<and>
   side_message \<noteq> ''Quantity must be positive''"
  by (simp add: place_market_order_def place_stop_limit_order_def Let_def py_upper_samples
      le_zero_def side_message_neq)

subsection \<open>Validation comes before any call of the exchange\<close>

text \<open>
  C2. When the upper-cased side is neither \<open>BUY\<close> nor \<open>SELL\<close>, or the quantity or a
  price is \<open>\<le> 0\<close>, each of the three placement operations raises a \<^verbatim>\<open>ValueError\<close> and the
  list of calls made through the client is what it was: no order is created.
\<close>

theorem validation_before_any_request:
  "(py_upper side \<notin> {''BUY'', ''SELL''} \<or> le_zero quantity \<longrightarrow>
      (\<exists>m. fst (place_market_order rt symbol side quantity b) = Inl (ValueError m)) \<and>
      issued (snd (place_market_order rt symbol side quantity b)) = issued b) \<and>
   (py_upper side \<notin> {''BUY'', ''SELL''} \<or> le_zero quantity \<or> le_zero price \<longrightarrow>
      (\<exists>m. fst (place_limit_order rt symbol side quantity price b) = Inl (ValueError m)) \<and>
      issued (snd (place_limit_order rt symbol side quantity price b)) = issued b) \<and>
   (py_upper side \<notin> {''BUY'', ''SELL''} \<or> le_zero quantity \<or> le_zero stop_price \<or>
    le_zero limit_price \<longrightarrow>
      (\<exists>m. fst (place_stop_limit_order rt symbol side quantity stop_price limit_price b) =
             Inl (ValueError m)) \<and>
      issued (snd (place_stop_limit_order rt symbol side quantity stop_price limit_price b)) =
        issued b)"
  by (simp add: place_market_order_def place_limit_order_def place_stop_limit_order_def Let_def)

theorem validation_before_any_request_witness:
  "py_upper ''hold'' \<notin> {''BUY'', ''SELL''} \<and>
   (\<exists>m. fst (place_market_order sample_runtime ''btcusdt'' ''hold'' (Fin 1) sample_bot) =
          Inl (ValueError m)) \<and>
   issued (snd (place_market_order sample_runtime ''btcusdt'' ''hold'' (Fin 1) sample_bot)) = [] \<and>
   (\<exists>m. fst (place_limit_order sample_runtime ''btcusdt'' ''hold'' (Fin 1) (Fin 1) sample_bot) =
          Inl (ValueError m)) \<and>
   issued (snd (place_limit_order sample_runtime ''btcusdt'' ''hold'' (Fin 1) (Fin 1) sample_bot)) = [] \<and>
   (\<exists>m. fst (place_stop_limit_order sample_runtime ''btcusdt'' ''hold'' (Fin 1) (Fin 1) (Fin 1)
               sample_bot) = Inl (ValueError m)) \<and>
   issued (snd (place_stop_limit_order sample_runtime ''btcusdt'' ''hold'' (Fin 1) (Fin 1) (Fin 1)
                  sample_bot)) = []"
proof -
  have side: "py_upper ''hold'' \<notin> {''BUY'', ''SELL''}"
    by (simp add: py_upper_samples)
  have start: "issued sample_bot = []"
    by (simp add: sample_bot_def)
  from validation_before_any_request [where side = "''hold''" and quantity = "Fin 1"
      and price = "Fin 1" and stop_price = "Fin 1" and limit_price = "Fin 1"
      and rt = sample_runtime and symbol = "''btcusdt''" and b = sample_bot]
  show ?thesis
    using side start by simp
qed

subsection \<open>The account snapshot\<close>

text \<open>
  C3. When the exchange answers the account query with a dictionary whose positions are
  dictionaries with a numeric amount, \<open>get_account_info\<close> returns a snapshot whose
  positions are exactly the answer's positions with an amount other than zero, in the
  answer's order, each with its symbol, amount, entry price, unrealized PnL and percentage
  as the answer has them, and whose balances are the answer's values as they are (\<open>'0'\<close>
  for a balance the answer does not have, \<^verbatim>\<open>None\<close> for a field a position does not have).
\<close>

theorem account_snapshot:
  assumes "exchange rt (issued b) FuturesAccount = Inr (PDict kvs)"
    and "map_of kvs ''positions'' = Some (PList (map PDict ds))"
    and "\<forall>d \<in> set ds. \<exists>f. position_amt d = Inr f"
  shows "fst (get_account_info rt b) =
           Inr (PDict
             [(''total_wallet_balance'', balance kvs ''totalWalletBalance''),
              (''total_unrealized_pnl'', balance kvs ''totalUnrealizedPnL''),
              (''total_margin_balance'', balance kvs ''totalMarginBalance''),
              (''available_balance'', balance kvs ''availableBalance''),
              (''max_withdraw_amount'', balance kvs ''maxWithdrawAmount''),
              (''positions'',
               PList (map (\<lambda>d. PDict [(''symbol'', read_field d ''symbol''),
                                       (''size'', read_field d ''positionAmt''),
                                       (''entry_price'', read_field d ''entryPrice''),
                                       (''unrealized_pnl'', read_field d ''unrealizedPnL''),
                                       (''percentage'', read_field d ''percentage'')])
                        (filter (\<lambda>d. position_amt d \<noteq> Inr (Fin 0)) ds)))])"
proof -
  have entry: "position_entry = (\<lambda>d. PDict [(''symbol'', read_field d ''symbol''),
                                       (''size'', read_field d ''positionAmt''),
                                       (''entry_price'', read_field d ''entryPrice''),
                                       (''unrealized_pnl'', read_field d ''unrealizedPnL''),
                                       (''percentage'', read_field d ''percentage'')])"
    by (rule ext) (simp add: position_entry_def read_field_def Let_def)
  have data: "account_data (PDict kvs) = Inr (PDict
             [(''total_wallet_balance'', balance kvs ''totalWalletBalance''),
              (''total_unrealized_pnl'', balance kvs ''totalUnrealizedPnL''),
              (''total_margin_balance'', balance kvs ''totalMarginBalance''),
              (''available_balance'', balance kvs ''availableBalance''),
              (''max_withdraw_amount'', balance kvs ''maxWithdrawAmount''),
              (''positions'',
               PList (map position_entry (filter (\<lambda>d. position_amt d \<noteq> Inr (Fin 0)) ds)))])"
    using assms(2) collect_positions_kept [OF assms(3), of "[]"]
    by (simp add: account_data_def Let_def py_iter_def balance_def)
  show ?thesis
    using assms(1) data
    by (simp add: get_account_info_def call_def Let_def entry)
qed

theorem account_snapshot_witness:
  "fst (get_account_info sample_runtime sample_bot) =
     Inr (PDict
       [(''total_wallet_balance'', PStr ''1000.00''),
        (''total_unrealized_pnl'', PStr ''0''),
        (''total_margin_balance'', PStr ''0''),
        (''available_balance'', PStr ''900.00''),
        (''max_withdraw_amount'', PStr ''0''),
        (''positions'',
         PList [PDict [(''symbol'', PStr ''BTCUSDT''), (''size'', PStr ''0.010''),
                       (''entry_price'', PStr ''50000.0''), (''unrealized_pnl'', PNone),
                       (''percentage'', PNone)]])])"
proof -
  let ?btc = "[(''symbol'', PStr ''BTCUSDT''), (''positionAmt'', PStr ''0.010''),
               (''entryPrice'', PStr ''50000.0'')]"
  let ?eth = "[(''symbol'', PStr ''ETHUSDT''), (''positionAmt'', PStr ''0.000''),
               (''entryPrice'', PStr ''0.0'')]"
  let ?kvs = "[(''totalWalletBalance'', PStr ''1000.00''), (''availableBalance'', PStr ''900.00''),
               (''positions'', PList [PDict ?btc, PDict ?eth])]"
  have btc: "position_amt ?btc = Inr (Fin (1 / 100))"
    by (simp add: position_amt_def float_of_str_samples)
  have eth: "position_amt ?eth = Inr (Fin 0)"
    by (simp add: position_amt_def float_of_str_samples)
  have answer: "exchange sample_runtime (issued sample_bot) FuturesAccount = Inr (PDict ?kvs)"
    by (simp add: sample_runtime_def sample_exchange_def sample_account_def)
  have positions: "map_of ?kvs ''positions'' = Some (PList (map PDict [?btc, ?eth]))"
    by simp
  have numeric: "\<forall>d \<in> set [?btc, ?eth]. \<exists>f. position_amt d = Inr f"
    using btc eth by simp
  from account_snapshot [OF answer positions numeric] btc eth
  show ?thesis
    by (simp add: balance_def read_field_def)
qed

subsection \<open>A failed operation is shown, and the menu comes back\<close>



subsection \<open>An order id of zero counts as no input\<close>

text \<open>
  C5. In the order-status and cancel-order actions (choices \<open>6\<close> and \<open>7\<close>), when the
  symbol entered is not empty and the order id entered is \<open>0\<close>, \<^verbatim>\<open>if not order_id: continue\<close>
  ends the round after the two prompts: the wrapper object is untouched, so no query and
  no cancellation is made for id \<open>0\<close>, nothing more is shown, and the loop goes on to the
  next menu.
\<close>

theorem zero_order_id_skipped:
  assumes "pending s = Line choice # Line symbol # Line oid # rest"
    and "convert TInt (py_strip choice) = Inr (PInt 6) \<or>
         convert TInt (py_strip choice) = Inr (PInt 7)"
    and "py_strip symbol \<noteq> []"
    and "convert TInt (py_strip oid) = Inr (PInt 0)"
  shows "menu_iteration rt s =
           (Continue,
            s\<lparr>pending := rest,
              screen := screen s @
                [Menu, Prompt ''Enter your choice (1-9): '', Prompt ''Enter symbol (e.g., BTCUSDT): '',
                 Prompt (if convert TInt (py_strip choice) = Inr (PInt 6) then ''Enter order ID: ''
                         else ''Enter order ID to cancel: '')]\<rparr>) \<and>
         issued (client (snd (menu_iteration rt s))) = issued (client s)"
  using assms
  by (auto simp: menu_iteration_def ask_def say_def dispatch_def choice_status_def
      choice_cancel_def ask_symbol_def convert_def [of TStr])

theorem zero_order_id_skipped_witness:
  "menu_iteration sample_runtime zero_id_session =
     (Continue,
      zero_id_session
        \<lparr>pending := [Line ''9''],
         screen := [Menu, Prompt ''Enter your choice (1-9): '',
                    Prompt ''Enter symbol (e.g., BTCUSDT): '', Prompt ''Enter order ID: '']\<rparr>) \<and>
   issued (client (snd (menu_iteration sample_runtime zero_id_session))) = []"
proof -
  have keys: "pending zero_id_session = Line ''6'' # Line ''btcusdt'' # Line ''0'' # [Line ''9'']"
    by (simp add: zero_id_session_def)
  have six: "convert TInt (py_strip ''6'') = Inr (PInt 6)"
    by code_simp
  have symbol: "py_strip ''btcusdt'' \<noteq> []"
    by code_simp
  have zero: "convert TInt (py_strip ''0'') = Inr (PInt 0)"
    by code_simp
  from zero_order_id_skipped [OF keys disjI1 [OF six] symbol zero, of sample_runtime] six
  show ?thesis
    by (simp add: zero_id_session_def sample_bot_def)
qed

subsection \<open>What a prompt returns\<close>



subsection \<open>The request of a limit order\<close>

text \<open>
  C7. For a side that upper-cases to \<open>BUY\<close> or \<open>SELL\<close>, a quantity \<open>> 0\<close> and a price
  \<open>> 0\<close>, \<open>place_limit_order\<close> makes exactly one call, \<^verbatim>\<open>futures_create_order\<close> with the
  upper-cased symbol and side, type \<open>LIMIT\<close>, time in force \<open>GTC\<close>, and the quantity and
  the price as they were passed; whatever the exchange answers.
\<close>

theorem limit_order_request:
  assumes "py_upper side \<in> {''BUY'', ''SELL''}" and "gt_zero quantity" and "gt_zero price"
  shows "issued (snd (place_limit_order rt symbol side quantity price b)) =
           issued b @ [FuturesCreateOrder
                         [(''symbol'', PStr (py_upper symbol)), (''side'', PStr (py_upper side)),
                          (''type'', PStr ''LIMIT''), (''timeInForce'', PStr ''GTC''),
                          (''quantity'', PFloat quantity), (''price'', PFloat price)]]"
proof -
  have q: "\<not> le_zero quantity" and p: "\<not> le_zero price"
    using assms(2,3) by (auto simp: le_zero_def gt_zero_def split: pyfloat.splits)
  show ?thesis
    using assms(1) q p
    by (simp add: place_limit_order_def call_def Let_def split: sum.splits)
qed

theorem limit_order_request_witness:
  "py_upper ''buy'' \<in> {''BUY'', ''SELL''} \<and> gt_zero (Fin (1 / 100)) \<and> gt_zero (Fin 50000) \<and>
   issued (snd (place_limit_order sample_runtime ''btcusdt'' ''buy'' (Fin (1 / 100)) (Fin 50000)
                  sample_bot)) =
     [FuturesCreateOrder
        [(''symbol'', PStr ''BTCUSDT''), (''side'', PStr ''BUY''),
         (''type'', PStr ''LIMIT''), (''timeInForce'', PStr ''GTC''),
         (''quantity'', PFloat (Fin (1 / 100))), (''price'', PFloat (Fin 50000))]]"
proof -
  have side: "py_upper ''buy'' \<in> {''BUY'', ''SELL''}"
    by (simp add: py_upper_samples)
  have q: "gt_zero (Fin (1 / 100))" and p: "gt_zero (Fin 50000)"
    by (simp_all add: gt_zero_def)
  from limit_order_request [OF side q p, of sample_runtime "''btcusdt''" sample_bot]
  show ?thesis
    using side q p by (simp add: sample_bot_def py_upper_samples)
qed

subsection \<open>Listing the open orders\<close>

text \<open>
  C8. With a symbol that is not empty, \<open>get_open_orders\<close> makes exactly one call,
  \<^verbatim>\<open>futures_get_open_orders\<close> for the upper-cased symbol; with no symbol, or the empty one,
  exactly one call without a symbol. The list the exchange answers with (that symbol's
  open orders, or all open orders) is returned as it is.
\<close>

theorem open_orders_request:
  "(symbol = Some s \<and> s \<noteq> [] \<longrightarrow>
      issued (snd (get_open_orders rt symbol b)) =
        issued b @ [FuturesGetOpenOrders (Some (py_upper s))] \<and>
      (\<forall>os. exchange rt (issued b) (FuturesGetOpenOrders (Some (py_upper s))) = Inr (PList os) \<longrightarrow>
            fst (get_open_orders rt symbol b) = Inr (PList os))) \<and>
   (symbol = None \<or> symbol = Some [] \<longrightarrow>
      issued (snd (get_open_orders rt symbol b)) = issued b @ [FuturesGetOpenOrders None] \<and>
      (\<forall>os. exchange rt (issued b) (FuturesGetOpenOrders None) = Inr (PList os) \<longrightarrow>
            fst (get_open_orders rt symbol b) = Inr (PList os)))"
  by (auto simp: get_open_orders_def call_def Let_def py_len_def split: sum.splits)

theorem open_orders_request_witness:
  "issued (snd (get_open_orders sample_runtime (Some ''btcusdt'') sample_bot)) =
     [FuturesGetOpenOrders (Some ''BTCUSDT'')] \<and>
   fst (get_open_orders sample_runtime (Some ''btcusdt'') sample_bot) =
     Inr (PList [hd sample_orders]) \<and>
   issued (snd (get_open_orders sample_runtime None sample_bot)) = [FuturesGetOpenOrders None] \<and>
   fst (get_open_orders sample_runtime None sample_bot) = Inr (PList sample_orders)"
proof -
  have start: "issued sample_bot = []"
    by (simp add: sample_bot_def)
  have one: "exchange sample_runtime [] (FuturesGetOpenOrders (Some ''BTCUSDT'')) =
      Inr (PList [hd sample_orders])"
    by (simp add: sample_runtime_def sample_exchange_def sample_orders_def subscript_def)
  have every: "exchange sample_runtime [] (FuturesGetOpenOrders None) = Inr (PList sample_orders)"
    by (simp add: sample_runtime_def sample_exchange_def)
  from open_orders_request [of "Some ''btcusdt''" "''btcusdt''" sample_runtime sample_bot]
    open_orders_request [of None "[]" sample_runtime sample_bot]
    start one every
  show ?thesis
    by (simp add: py_upper_samples)
qed

subsection \<open>The credentials stay as constructed\<close>

text \<open>
  C9. No run of wrapper operations changes \<open>api_key\<close>, \<open>api_secret\<close> or \<open>testnet\<close>; on
  the object \<^verbatim>\<open>__init__\<close> made, they are the constructor's arguments after any such run.
\<close>

theorem credentials_never_modified:
  "api_key (apply_operations rt xs b) = api_key b \<and>
   api_secret (apply_operations rt xs b) = api_secret b \<and>
   testnet (apply_operations rt xs b) = testnet b \<and>
   api_key (apply_operations rt xs (snd (init rt key secret tn lg))) = key \<and>
   api_secret (apply_operations rt xs (snd (init rt key secret tn lg))) = secret \<and>
   testnet (apply_operations rt xs (snd (init rt key secret tn lg))) = tn"
  by (simp add: apply_operations_keeps init_def Let_def split: option.splits)

theorem credentials_never_modified_witness:
  "api_key (apply_operations sample_runtime
              [PlaceMarketOrder ''btcusdt'' ''buy'' (Fin 1), CancelOrder ''btcusdt'' 5,
               GetOpenOrders None]
              (snd (init sample_runtime ''key'' ''secret'' True []))) = ''key'' \<and>
   length (issued (apply_operations sample_runtime
              [PlaceMarketOrder ''btcusdt'' ''buy'' (Fin 1), CancelOrder ''btcusdt'' 5,
               GetOpenOrders None]
              (snd (init sample_runtime ''key'' ''secret'' True [])))) = 3"
proof -
  let ?xs = "[PlaceMarketOrder ''btcusdt'' ''buy'' (Fin 1),
              CancelOrder ''btcusdt'' 5, GetOpenOrders None]"
  have calls: "length (issued (apply_operations sample_runtime ?xs
      (snd (init sample_runtime ''key'' ''secret'' True [])))) = 3"
    by code_simp
  have key: "api_key (apply_operations sample_runtime ?xs
      (snd (init sample_runtime ''key'' ''secret'' True []))) = ''key''"
    using credentials_never_modified [of sample_runtime ?xs sample_bot "''key''" "''secret''"
        True "[]"]
    by blast
  from key calls show ?thesis
    by (rule conjI)
qed

subsection \<open>The symbol is case-insensitive\<close>

text \<open>
  C10. Every wrapper operation that takes a symbol upper-cases it before the call: the one
  request it issues (for a placement, once the side, the quantity and the prices have
  passed the checks; for the open orders, when the symbol is not empty) carries
  \<^verbatim>\<open>symbol.upper()\<close>. So the operation makes the same calls and returns the same result (or
  raises the same exception) for a symbol as for the symbol upper-cased by the caller.
  (The log differs: it quotes the symbol as it was passed.)
\<close>

theorem symbol_case_insensitive:
  "issued (snd (get_current_price rt symbol b)) =
     issued b @ [FuturesSymbolTicker (py_upper symbol)] \<and>
   (py_upper side \<in> {''BUY'', ''SELL''} \<and> \<not> le_zero quantity \<longrightarrow>
      issued (snd (place_market_order rt symbol side quantity b)) =
        issued b @
        [FuturesCreateOrder
           [(''symbol'', PStr (py_upper symbol)), (''side'', PStr (py_upper side)),
            (''type'', PStr ''MARKET''), (''quantity'', PFloat quantity)]]) \<and>
   (py_upper side \<in> {''BUY'', ''SELL''} \<and> \<not> le_zero quantity \<and> \<not> le_zero price \<longrightarrow>
      issued (snd (place_limit_order rt symbol side quantity price b)) =
        issued b @
        [FuturesCreateOrder
           [(''symbol'', PStr (py_upper symbol)), (''side'', PStr (py_upper side)),
            (''type'', PStr ''LIMIT''), (''timeInForce'', PStr ''GTC''),
            (''quantity'', PFloat quantity), (''price'', PFloat price)]]) \<and>
   (py_upper side \<in> {''BUY'', ''SELL''} \<and> \<not> le_zero quantity \<and>
    \<not> le_zero stop_price \<and> \<not> le_zero limit_price \<longrightarrow>
      issued (snd (place_stop_limit_order rt symbol side quantity stop_price limit_price b)) =
        issued b @
        [FuturesCreateOrder
           [(''symbol'', PStr (py_upper symbol)), (''side'', PStr (py_upper side)),
            (''type'', PStr ''STOP''), (''timeInForce'', PStr ''GTC''),
            (''quantity'', PFloat quantity), (''price'', PFloat limit_price),
            (''stopPrice'', PFloat stop_price)]]) \<and>
   issued (snd (get_order_status rt symbol order_id b)) =
     issued b @ [FuturesGetOrder (py_upper symbol) order_id] \<and>
   issued (snd (cancel_order rt symbol order_id b)) =
     issued b @ [FuturesCancelOrder (py_upper symbol) order_id] \<and>
   (symbol \<noteq> [] \<longrightarrow>
      issued (snd (get_open_orders rt (Some symbol) b)) =
        issued b @ [FuturesGetOpenOrders (Some (py_upper symbol))]) \<and>
   fst (apply_operation rt (with_upper_symbol x) b) = fst (apply_operation rt x b) \<and>
   issued (snd (apply_operation rt (with_upper_symbol x) b)) =
     issued (snd (apply_operation rt x b))"
proof -
  have price_request: "issued (snd (get_current_price rt symbol b)) =
      issued b @ [FuturesSymbolTicker (py_upper symbol)]"
    by (simp add: get_current_price_def call_def Let_def split: sum.splits)
  have market_request: "py_upper side \<in> {''BUY'', ''SELL''} \<and> \<not> le_zero quantity \<longrightarrow>
      issued (snd (place_market_order rt symbol side quantity b)) =
        issued b @
        [FuturesCreateOrder
           [(''symbol'', PStr (py_upper symbol)), (''side'', PStr (py_upper side)),
            (''type'', PStr ''MARKET''), (''quantity'', PFloat quantity)]]"
    by (simp add: place_market_order_def call_def Let_def split: sum.splits)
  have limit_request:
    "py_upper side \<in> {''BUY'', ''SELL''} \<and> \<not> le_zero quantity \<and> \<not> le_zero price \<longrightarrow>
      issued (snd (place_limit_order rt symbol side quantity price b)) =
        issued b @
        [FuturesCreateOrder
           [(''symbol'', PStr (py_upper symbol)), (''side'', PStr (py_upper side)),
            (''type'', PStr ''LIMIT''), (''timeInForce'', PStr ''GTC''),
            (''quantity'', PFloat quantity), (''price'', PFloat price)]]"
    by (simp add: place_limit_order_def call_def Let_def split: sum.splits)
  have stop_limit_request:
    "py_upper side \<in> {''BUY'', ''SELL''} \<and> \<not> le_zero quantity \<and>
     \<not> le_zero stop_price \<and> \<not> le_zero limit_price \<longrightarrow>
      issued (snd (place_stop_limit_order rt symbol side quantity stop_price limit_price b)) =
        issued b @
        [FuturesCreateOrder
           [(''symbol'', PStr (py_upper symbol)), (''side'', PStr (py_upper side)),
            (''type'', PStr ''STOP''), (''timeInForce'', PStr ''GTC''),
            (''quantity'', PFloat quantity), (''price'', PFloat limit_price),
            (''stopPrice'', PFloat stop_price)]]"
    by (simp add: place_stop_limit_order_def call_def Let_def split: sum.splits)
  have status_request: "issued (snd (get_order_status rt symbol order_id b)) =
      issued b @ [FuturesGetOrder (py_upper symbol) order_id]"
    by (simp add: get_order_status_def call_def Let_def split: sum.splits)
  have cancel_request: "issued (snd (cancel_order rt symbol order_id b)) =
      issued b @ [FuturesCancelOrder (py_upper symbol) order_id]"
    by (simp add: cancel_order_def call_def Let_def split: sum.splits)
  have open_orders_request: "symbol \<noteq> [] \<longrightarrow>
      issued (snd (get_open_orders rt (Some symbol) b)) =
        issued b @ [FuturesGetOpenOrders (Some (py_upper symbol))]"
    by (simp add: get_open_orders_def call_def Let_def split: sum.splits)
  have same: "fst (apply_operation rt (with_upper_symbol x) b) = fst (apply_operation rt x b) \<and>
      issued (snd (apply_operation rt (with_upper_symbol x) b)) =
        issued (snd (apply_operation rt x b))"
    by (cases x)
      (auto simp: get_current_price_def place_market_order_def place_limit_order_def
        place_stop_limit_order_def get_order_status_def cancel_order_def get_open_orders_def
        call_def Let_def split: sum.splits option.splits)
  from price_request market_request limit_request stop_limit_request status_request
    cancel_request open_orders_request same
  show ?thesis
    by (intro conjI) (elim conjE, assumption)+
qed

theorem symbol_case_insensitive_witness:
  "py_upper ''buy'' \<in> {''BUY'', ''SELL''} \<and> \<not> le_zero (Fin 1) \<and> ''btcusdt'' \<noteq> [] \<and>
   issued (snd (get_current_price sample_runtime ''btcusdt'' sample_bot)) =
     [FuturesSymbolTicker ''BTCUSDT''] \<and>
   issued (snd (place_market_order sample_runtime ''btcusdt'' ''buy'' (Fin 1) sample_bot)) =
     [FuturesCreateOrder
        [(''symbol'', PStr ''BTCUSDT''), (''side'', PStr ''BUY''), (''type'', PStr ''MARKET''),
         (''quantity'', PFloat (Fin 1))]] \<and>
   issued (snd (place_limit_order sample_runtime ''btcusdt'' ''buy'' (Fin 1) (Fin 1) sample_bot)) =
     [FuturesCreateOrder
        [(''symbol'', PStr ''BTCUSDT''), (''side'', PStr ''BUY''), (''type'', PStr ''LIMIT''),
         (''timeInForce'', PStr ''GTC''), (''quantity'', PFloat (Fin 1)),
         (''price'', PFloat (Fin 1))]] \<and>
   issued (snd (place_stop_limit_order sample_runtime ''btcusdt'' ''buy'' (Fin 1) (Fin 1) (Fin 1)
                  sample_bot)) =
     [FuturesCreateOrder
        [(''symbol'', PStr ''BTCUSDT''), (''side'', PStr ''BUY''), (''type'', PStr ''STOP''),
         (''timeInForce'', PStr ''GTC''), (''quantity'', PFloat (Fin 1)),
         (''price'', PFloat (Fin 1)), (''stopPrice'', PFloat (Fin 1))]] \<and>
   issued (snd (get_order_status sample_runtime ''btcusdt'' 12345 sample_bot)) =
     [FuturesGetOrder ''BTCUSDT'' 12345] \<and>
   issued (snd (cancel_order sample_runtime ''btcusdt'' 12345 sample_bot)) =
     [FuturesCancelOrder ''BTCUSDT'' 12345] \<and>
   issued (snd (get_open_orders sample_runtime (Some ''btcusdt'') sample_bot)) =
     [FuturesGetOpenOrders (Some ''BTCUSDT'')] \<and>
   fst (get_current_price sample_runtime ''BTCUSDT'' sample_bot) =
     fst (get_current_price sample_runtime ''btcusdt'' sample_bot) \<and>
   fst (get_current_price sample_runtime ''btcusdt'' sample_bot) = Inr (PFloat (Fin (500001 / 10)))"
proof -
  have run: "fst (get_current_price sample_runtime ''btcusdt'' sample_bot) =
      Inr (PFloat (Fin (500001 / 10)))"
    by (simp add: get_current_price_def call_def Let_def sample_runtime_def sample_exchange_def
        sample_bot_def subscript_def py_upper_samples float_of_str_samples)
  have fresh: "issued sample_bot = []"
    by (simp add: sample_bot_def)
  from symbol_case_insensitive
      [where rt = sample_runtime and symbol = "''btcusdt''" and side = "''buy''"
         and quantity = "Fin 1" and price = "Fin 1" and stop_price = "Fin 1"
         and limit_price = "Fin 1" and order_id = 12345 and b = sample_bot
         and x = "GetCurrentPrice ''btcusdt''"]
    run fresh
  show ?thesis
    by (simp add: py_upper_samples le_zero_def)
qed

end
